theory Spec2Isabelle
  imports Main
begin

section \<open>JavaScript values\<close>

text \<open>
  The values that \<^verbatim>\<open>src/type/definition.js\<close> stores, copies and compares without looking
  inside them (an enum's internal value, a default value, a description, an extensions
  object, an AST node). Objects, arrays and functions are known by their identity only.
  Numbers are the integers and \<open>NaN\<close>, with a single zero: this is the equality that
  a \<^verbatim>\<open>Map\<close> uses for its keys (SameValueZero), and HOL equality on \<open>jsval\<close> stands
  for it.
\<close>

type_synonym ref = nat

datatype jsval =
    JUndefined
  | JNull
  | JBool bool
  | JNum int
  | JNaN
  | JStr string
  | JFun ref
  | JArr ref
  | JObj ref

text \<open>\<^verbatim>\<open>x == null\<close>: the value is \<^verbatim>\<open>null\<close> or \<^verbatim>\<open>undefined\<close>.\<close>

definition nullish :: "jsval \<Rightarrow> bool" where
  "nullish v = (v = JUndefined \<or> v = JNull)"

text \<open>\<^verbatim>\<open>Boolean(x)\<close>, the test of \<^verbatim>\<open>if (x)\<close> and of \<^verbatim>\<open>x && y\<close>.\<close>

fun truthy_val :: "jsval \<Rightarrow> bool" where
  "truthy_val JUndefined = False"
| "truthy_val JNull = False"
| "truthy_val (JBool b) = b"
| "truthy_val (JNum n) = (n \<noteq> 0)"
| "truthy_val JNaN = False"
| "truthy_val (JStr s) = (s \<noteq> [])"
| "truthy_val (JFun r) = True"
| "truthy_val (JArr r) = True"
| "truthy_val (JObj r) = True"

text \<open>\<^verbatim>\<open>typeof x === 'function'\<close> and \<^verbatim>\<open>typeof x === 'string'\<close>.\<close>

fun is_function :: "jsval \<Rightarrow> bool" where
  "is_function (JFun r) = True"
| "is_function _ = False"

fun is_string :: "jsval \<Rightarrow> bool" where
  "is_string (JStr s) = True"
| "is_string _ = False"

section \<open>Types and the values that may or may not be types\<close>

text \<open>
  An instance of one of the eight classes. A named type is an object of its class,
  known by its identity; its contents are the records of the later sections. A wrapping
  type holds exactly one \<^verbatim>\<open>ofType\<close>.
\<close>

datatype GraphQLType =
    ScalarT ref
  | ObjectT ref
  | InterfaceT ref
  | UnionT ref
  | EnumT ref
  | InputObjectT ref
  | ListT GraphQLType
  | NonNullT GraphQLType

text \<open>
  \<^verbatim>\<open>mixed\<close>: what the predicates receive. \<open>Ty t\<close> is an instance of one of the eight
  classes, \<open>Val v\<close> is any other value.
\<close>

datatype mixed = Val jsval | Ty GraphQLType

fun truthy :: "mixed \<Rightarrow> bool" where
  "truthy (Val v) = truthy_val v"
| "truthy (Ty t) = True"

datatype js_class =
    GraphQLScalarType
  | GraphQLObjectType
  | GraphQLInterfaceType
  | GraphQLUnionType
  | GraphQLEnumType
  | GraphQLInputObjectType
  | GraphQLList
  | GraphQLNonNull

fun class_of :: "GraphQLType \<Rightarrow> js_class" where
  "class_of (ScalarT r) = GraphQLScalarType"
| "class_of (ObjectT r) = GraphQLObjectType"
| "class_of (InterfaceT r) = GraphQLInterfaceType"
| "class_of (UnionT r) = GraphQLUnionType"
| "class_of (EnumT r) = GraphQLEnumType"
| "class_of (InputObjectT r) = GraphQLInputObjectType"
| "class_of (ListT t) = GraphQLList"
| "class_of (NonNullT t) = GraphQLNonNull"

text \<open>
  Modelled from the spec: \<^verbatim>\<open>instanceOf\<close> (jsutils/instanceOf.js) is not among the sources.
  Section 4.1 of the specification: given any value claiming to be a type, decide
  membership in one of the eight kinds.
\<close>

fun instanceOf :: "mixed \<Rightarrow> js_class \<Rightarrow> bool" where
  "instanceOf (Ty t) c = (class_of t = c)"
| "instanceOf (Val v) c = False"

text \<open>The property read \<^verbatim>\<open>type.ofType\<close>; a value without the property reads as undefined.\<close>

fun ofType :: "mixed \<Rightarrow> mixed" where
  "ofType (Ty (ListT t)) = Ty t"
| "ofType (Ty (NonNullT t)) = Ty t"
| "ofType x = Val JUndefined"

section \<open>Errors\<close>

text \<open>
  Every \<^verbatim>\<open>throw\<close> of the source is a value of \<open>error\<close>. A constructor stands for one
  message template and carries what the template interpolates, not yet rendered
  (\<^verbatim>\<open>inspect\<close>, \<^verbatim>\<open>print\<close>, \<^verbatim>\<open>didYouMean\<close> and \<^verbatim>\<open>suggestionList\<close> are not among the
  sources).
\<close>

datatype error =
    ExpectedType mixed
      \<comment> \<open>Expected \<open>inspect(ofType)\<close> to be a GraphQL type.\<close>
  | ExpectedNullableType mixed
      \<comment> \<open>Expected \<open>inspect(ofType)\<close> to be a GraphQL nullable type.\<close>
  | MustProvideName
      \<comment> \<open>Must provide name.\<close>
  | EnumValuesMustBeObject jsval
      \<comment> \<open>\<open>typeName\<close> values must be an object with value names as keys.\<close>
  | EnumValueMustBeObject jsval string jsval
      \<comment> \<open>\<open>typeName\<close>.\<open>valueName\<close> must refer to an object with a "value" key
          representing an internal value but got: \<open>inspect(valueConfig)\<close>.\<close>
  | EnumCannotRepresentValue jsval jsval
      \<comment> \<open>Enum "\<open>name\<close>" cannot represent value: \<open>inspect(outputValue)\<close>\<close>
  | EnumCannotRepresentNonString jsval jsval "string list"
      \<comment> \<open>Enum "\<open>name\<close>" cannot represent non-string value: \<open>valueStr\<close>. with the
          suggestions drawn from the names of all values\<close>
  | EnumValueDoesNotExist jsval string "string list"
      \<comment> \<open>Value "\<open>inputValue\<close>" does not exist in "\<open>name\<close>" enum. with the suggestions
          drawn from the names of all values\<close>
  | FieldsMustBeObject jsval
      \<comment> \<open>\<open>name\<close> fields must be an object with field names as keys or a function
          which returns such an object.\<close>
  | FieldConfigMustBeObject jsval string
      \<comment> \<open>\<open>name\<close>.\<open>fieldName\<close> field config must be an object.\<close>
  | FieldResolverMustBeFunction jsval string jsval
      \<comment> \<open>\<open>name\<close>.\<open>fieldName\<close> field resolver must be a function if provided, but got:
          \<open>inspect(resolve)\<close>.\<close>
  | ArgsMustBeObject jsval string
      \<comment> \<open>\<open>name\<close>.\<open>fieldName\<close> args must be an object with argument names as keys.\<close>
  | InterfacesMustBeArray jsval
      \<comment> \<open>\<open>name\<close> interfaces must be an Array or a function which returns an Array.\<close>
  | TypesMustBeArray jsval
      \<comment> \<open>Must provide Array of types or a function which returns such an array for
          Union \<open>name\<close>.\<close>
  | MustProvideFunction jsval string jsval
      \<comment> \<open>\<open>name\<close> must provide "isTypeOf" (or "resolveType") as a function, but got:
          \<open>inspect(value)\<close>.\<close>
  | InputFieldHasResolve jsval string
      \<comment> \<open>\<open>name\<close>.\<open>fieldName\<close> field has a resolve property, but Input Types cannot
          define resolvers.\<close>
  | TypeError_in jsval
      \<comment> \<open>the \<^verbatim>\<open>TypeError\<close> of \<^verbatim>\<open>'resolve' in x\<close> when \<open>x\<close> is not an object\<close>
  | Thrown jsval
      \<comment> \<open>an exception thrown by a function the caller supplied\<close>

text \<open>
  Modelled from the spec: \<^verbatim>\<open>devAssert\<close> (jsutils/devAssert.js) is not among the sources.
  Sections 7 and 9 of the specification: an invariant check is a fail-fast assertion,
  raised synchronously where it stands; nothing after it runs when the condition is false.
\<close>

definition devAssert :: "bool \<Rightarrow> error \<Rightarrow> error + unit" where
  "devAssert condition message = (if condition then Inr () else Inl message)"

text \<open>Sequencing of two steps, the first of which may throw.\<close>

definition and_then :: "error + 'a \<Rightarrow> ('a \<Rightarrow> error + 'b) \<Rightarrow> error + 'b" where
  "and_then r f = (case r of Inl e \<Rightarrow> Inl e | Inr x \<Rightarrow> f x)"

section \<open>Predicates\<close>

definition isScalarType :: "mixed \<Rightarrow> bool" where
  "isScalarType ty = instanceOf ty GraphQLScalarType"

definition isObjectType :: "mixed \<Rightarrow> bool" where
  "isObjectType ty = instanceOf ty GraphQLObjectType"

definition isInterfaceType :: "mixed \<Rightarrow> bool" where
  "isInterfaceType ty = instanceOf ty GraphQLInterfaceType"

definition isUnionType :: "mixed \<Rightarrow> bool" where
  "isUnionType ty = instanceOf ty GraphQLUnionType"

definition isEnumType :: "mixed \<Rightarrow> bool" where
  "isEnumType ty = instanceOf ty GraphQLEnumType"

definition isInputObjectType :: "mixed \<Rightarrow> bool" where
  "isInputObjectType ty = instanceOf ty GraphQLInputObjectType"

definition isListType :: "mixed \<Rightarrow> bool" where
  "isListType ty = instanceOf ty GraphQLList"

definition isNonNullType :: "mixed \<Rightarrow> bool" where
  "isNonNullType ty = instanceOf ty GraphQLNonNull"

definition isType :: "mixed \<Rightarrow> bool" where
  "isType ty =
     (isScalarType ty \<or> isObjectType ty \<or> isInterfaceType ty \<or> isUnionType ty \<or>
      isEnumType ty \<or> isInputObjectType ty \<or> isListType ty \<or> isNonNullType ty)"

definition isWrappingType :: "mixed \<Rightarrow> bool" where
  "isWrappingType ty = (isListType ty \<or> isNonNullType ty)"

text \<open>The number of wrapping layers of a value: what the recursions below descend on.\<close>

fun depth :: "mixed \<Rightarrow> nat" where
  "depth (Ty t) = size t"
| "depth (Val v) = 0"

lemma isWrappingType_depth: "isWrappingType ty \<Longrightarrow> depth (ofType ty) < depth ty"
  by (cases ty rule: ofType.cases)
     (simp_all add: isWrappingType_def isListType_def isNonNullType_def)

text \<open>
  \<^verbatim>\<open>a || b\<close> and \<^verbatim>\<open>a && b\<close> evaluate \<open>b\<close> only when \<open>a\<close> does not decide: the
  recursive call below is made on a wrapping type only.
\<close>

declare conj_cong [fundef_cong]

function isInputType :: "mixed \<Rightarrow> bool" where
  "isInputType ty =
     (isScalarType ty \<or> isEnumType ty \<or> isInputObjectType ty \<or>
      (isWrappingType ty \<and> isInputType (ofType ty)))"
  by pat_completeness auto
termination
  by (relation "measure depth") (simp_all add: isWrappingType_depth)

function isOutputType :: "mixed \<Rightarrow> bool" where
  "isOutputType ty =
     (isScalarType ty \<or> isObjectType ty \<or> isInterfaceType ty \<or> isUnionType ty \<or>
      isEnumType ty \<or> (isWrappingType ty \<and> isOutputType (ofType ty)))"
  by pat_completeness auto
termination
  by (relation "measure depth") (simp_all add: isWrappingType_depth)

declare isInputType.simps [simp del]
declare isOutputType.simps [simp del]

definition isLeafType :: "mixed \<Rightarrow> bool" where
  "isLeafType ty = (isScalarType ty \<or> isEnumType ty)"

definition isCompositeType :: "mixed \<Rightarrow> bool" where
  "isCompositeType ty = (isObjectType ty \<or> isInterfaceType ty \<or> isUnionType ty)"

definition isAbstractType :: "mixed \<Rightarrow> bool" where
  "isAbstractType ty = (isInterfaceType ty \<or> isUnionType ty)"

definition isNullableType :: "mixed \<Rightarrow> bool" where
  "isNullableType ty = (isType ty \<and> \<not> isNonNullType ty)"

definition isNamedType :: "mixed \<Rightarrow> bool" where
  "isNamedType ty =
     (isScalarType ty \<or> isObjectType ty \<or> isInterfaceType ty \<or> isUnionType ty \<or>
      isEnumType ty \<or> isInputObjectType ty)"

section \<open>The wrapping types\<close>

text \<open>
  The constructors of \<^verbatim>\<open>GraphQLList\<close> and \<^verbatim>\<open>GraphQLNonNull\<close>. The assertion guards the
  assignment of \<^verbatim>\<open>ofType\<close>, so an instance always holds a type: this is what lets
  \<open>ListT\<close> and \<open>NonNullT\<close> hold a \<open>GraphQLType\<close>. A value that is not a type does
  not pass the assertion, and the branch \<open>Val\<close> after it is never reached.
\<close>

definition new_GraphQLList :: "mixed \<Rightarrow> error + GraphQLType" where
  "new_GraphQLList ofType' =
     and_then (devAssert (isType ofType') (ExpectedType ofType')) (\<lambda>_.
       case ofType' of Ty t \<Rightarrow> Inr (ListT t) | Val v \<Rightarrow> Inl (ExpectedType ofType'))"

definition new_GraphQLNonNull :: "mixed \<Rightarrow> error + GraphQLType" where
  "new_GraphQLNonNull ofType' =
     and_then (devAssert (isNullableType ofType') (ExpectedNullableType ofType')) (\<lambda>_.
       case ofType' of Ty t \<Rightarrow> Inr (NonNullT t) | Val v \<Rightarrow> Inl (ExpectedNullableType ofType'))"

section \<open>Unwrapping\<close>

definition getNullableType :: "mixed \<Rightarrow> mixed" where
  "getNullableType ty =
     (if truthy ty then (if isNonNullType ty then ofType ty else ty)
      else Val JUndefined)"

text \<open>The \<^verbatim>\<open>while\<close> loop of \<^verbatim>\<open>getNamedType\<close>, from the value of \<^verbatim>\<open>unwrappedType\<close>.\<close>

function unwrap_loop :: "mixed \<Rightarrow> mixed" where
  "unwrap_loop unwrappedType =
     (if isWrappingType unwrappedType then unwrap_loop (ofType unwrappedType)
      else unwrappedType)"
  by pat_completeness auto
termination
  by (relation "measure depth") (simp_all add: isWrappingType_depth)

declare unwrap_loop.simps [simp del]

definition getNamedType :: "mixed \<Rightarrow> mixed" where
  "getNamedType ty = (if truthy ty then unwrap_loop ty else Val JUndefined)"

text \<open>
  The chain of types reached from a type by reading \<^verbatim>\<open>ofType\<close> again and again, the
  type itself first: the types that exist once the type does.
\<close>

fun layers :: "GraphQLType \<Rightarrow> GraphQLType list" where
  "layers (ListT t) = ListT t # layers t"
| "layers (NonNullT t) = NonNullT t # layers t"
| "layers t = [t]"

text \<open>A stack of wrappers, outermost first, put around a type.\<close>

datatype wrapper = WList | WNonNull

fun wrap :: "wrapper list \<Rightarrow> GraphQLType \<Rightarrow> GraphQLType" where
  "wrap [] t = t"
| "wrap (WList # ws) t = ListT (wrap ws t)"
| "wrap (WNonNull # ws) t = NonNullT (wrap ws t)"

section \<open>Objects, maps and the helpers of jsutils\<close>

text \<open>
  A value that a configuration holds where a plain object is expected: the plain object,
  with its contents, or any other value (a primitive, \<^verbatim>\<open>null\<close>, a function, an array).
  The test \<^verbatim>\<open>isPlainObj(x)\<close>, which is \<^verbatim>\<open>isObjectLike(x) && !Array.isArray(x)\<close>, is
  the distinction of the two cases.
\<close>

datatype 'a plain = PlainObj 'a | NotPlainObj jsval

text \<open>
  An object used as a map from names: its own enumerable properties, in the order in
  which \<^verbatim>\<open>Object.entries\<close> lists them. The keys of an object are distinct.
\<close>

type_synonym 'a ObjMap = "(string \<times> 'a) list"

definition Object_entries :: "'a ObjMap \<Rightarrow> (string \<times> 'a) list" where
  "Object_entries obj = obj"

text \<open>\<^verbatim>\<open>obj[key]\<close>, where \<open>None\<close> is the \<^verbatim>\<open>undefined\<close> of a missing property.\<close>

definition get_property :: "'a ObjMap \<Rightarrow> string \<Rightarrow> 'a option" where
  "get_property obj key = map_of obj key"

text \<open>
  \<^verbatim>\<open>obj[key] = value\<close> and \<^verbatim>\<open>map.set(key, value)\<close>: an entry that exists keeps its place
  and takes the new value, a new entry goes last.
\<close>

fun set_entry :: "('k \<times> 'v) list \<Rightarrow> 'k \<Rightarrow> 'v \<Rightarrow> ('k \<times> 'v) list" where
  "set_entry [] key v = [(key, v)]"
| "set_entry ((k, w) # rest) key v =
     (if k = key then (k, v) # rest else (k, w) # set_entry rest key v)"

text \<open>
  The \<^verbatim>\<open>Map\<close> of the language. \<^verbatim>\<open>new Map(entries)\<close> starts from the empty map and calls
  \<^verbatim>\<open>set\<close> for each entry, in order; \<^verbatim>\<open>get\<close> answers \<^verbatim>\<open>undefined\<close> (here \<open>None\<close>) for
  a key that was never set.
\<close>

type_synonym ('k, 'v) Map = "('k \<times> 'v) list"

definition new_Map :: "('k \<times> 'v) list \<Rightarrow> ('k, 'v) Map" where
  "new_Map entries = foldl (\<lambda>m (key, v). set_entry m key v) [] entries"

definition Map_get :: "('k, 'v) Map \<Rightarrow> 'k \<Rightarrow> 'v option" where
  "Map_get m key = map_of m key"

text \<open>
  Modelled from the spec: \<^verbatim>\<open>keyMap\<close> (jsutils/keyMap.js) is not among the sources. Section
  4.5 of the specification: a forward map from name to the record, built once from a
  scan of the sequence of records.
\<close>

definition keyMap :: "'a list \<Rightarrow> ('a \<Rightarrow> string) \<Rightarrow> 'a ObjMap" where
  "keyMap xs keyFn = foldl (\<lambda>m item. set_entry m (keyFn item) item) [] xs"

text \<open>
  Modelled from the spec: \<^verbatim>\<open>mapValue\<close> (jsutils/mapValue.js) is not among the sources.
  Sections 4.4 and 4.7 of the specification: a mapping from name to record is turned,
  entry by entry and in its order, into a mapping from the same names. The function
  given may throw, and then nothing is returned.
\<close>

fun mapValue :: "'a ObjMap \<Rightarrow> ('a \<Rightarrow> string \<Rightarrow> error + 'b) \<Rightarrow> error + 'b ObjMap" where
  "mapValue [] fn = Inr []"
| "mapValue ((key, v) # rest) fn =
     and_then (fn v key) (\<lambda>r.
     and_then (mapValue rest fn) (\<lambda>rs. Inr ((key, r) # rs)))"

text \<open>\<^verbatim>\<open>array.map(fn)\<close> where \<open>fn\<close> may throw.\<close>

fun array_map :: "'a list \<Rightarrow> ('a \<Rightarrow> error + 'b) \<Rightarrow> error + 'b list" where
  "array_map [] fn = Inr []"
| "array_map (x # rest) fn =
     and_then (fn x) (\<lambda>r.
     and_then (array_map rest fn) (\<lambda>rs. Inr (r # rs)))"

text \<open>
  Modelled from the spec: \<^verbatim>\<open>toObjMap\<close> (jsutils/toObjMap.js) is not among the sources.
  Section 3 of the specification: an extensions map is an opaque, read-only side-channel
  of metadata, never interpreted. An extensions object is known here by its identity,
  which stands for its entries; \<^verbatim>\<open>toObjMap\<close> gives an object with the same entries.
\<close>

definition toObjMap :: "jsval \<Rightarrow> jsval" where
  "toObjMap obj = obj"

text \<open>\<^verbatim>\<open>x.extensions && toObjMap(x.extensions)\<close>.\<close>

definition extensions_of :: "jsval \<Rightarrow> jsval" where
  "extensions_of extensions = (if truthy_val extensions then toObjMap extensions else extensions)"

text \<open>
  A property that may be missing: \<open>None\<close> when the object does not have it, \<open>Some v\<close>
  when it has it with the value \<open>v\<close>, which may be \<^verbatim>\<open>undefined\<close>. Reading a missing
  property gives \<^verbatim>\<open>undefined\<close>. A property that the source only ever reads is a plain
  \<open>jsval\<close>, \<open>JUndefined\<close> when it is missing.
\<close>

definition read :: "jsval option \<Rightarrow> jsval" where
  "read p = (case p of None \<Rightarrow> JUndefined | Some v \<Rightarrow> v)"

section \<open>Enum types\<close>

record GraphQLEnumValueConfig =
  evc_description :: jsval
  evc_value :: "jsval option"
  evc_deprecationReason :: jsval
  evc_extensions :: jsval
  evc_astNode :: jsval

record GraphQLEnumValue =
  ev_name :: string
  ev_description :: jsval
  ev_value :: jsval
  ev_deprecationReason :: jsval
  ev_extensions :: jsval
  ev_astNode :: jsval

text \<open>
  \<^verbatim>\<open>extensionASTNodes\<close> is an array of AST nodes, or \<open>None\<close> when the property is missing,
  \<^verbatim>\<open>undefined\<close> or \<^verbatim>\<open>null\<close>, the three cases that \<^verbatim>\<open>?? []\<close> replaces by the empty array.
\<close>

record GraphQLEnumTypeConfig =
  etc_name :: jsval
  etc_description :: jsval
  etc_values :: "GraphQLEnumValueConfig plain ObjMap plain"
  etc_extensions :: jsval
  etc_astNode :: jsval
  etc_extensionASTNodes :: "jsval list option"

text \<open>An instance of \<^verbatim>\<open>GraphQLEnumType\<close>; \<open>en_values\<close> is \<^verbatim>\<open>this._values\<close>, and so on.\<close>

record GraphQLEnumType_obj =
  en_name :: jsval
  en_description :: jsval
  en_extensions :: jsval
  en_astNode :: jsval
  en_extensionASTNodes :: "jsval list"
  en_values :: "GraphQLEnumValue list"
  en_valueLookup :: "(jsval, GraphQLEnumValue) Map"
  en_nameLookup :: "GraphQLEnumValue ObjMap"

text \<open>
  The two assertions \<^verbatim>\<open>devAssert(isPlainObj(valueMap), ...)\<close> and
  \<^verbatim>\<open>devAssert(isPlainObj(valueConfig), ...)\<close> are the \<open>NotPlainObj\<close> branches.
\<close>

definition defineEnumValues ::
  "jsval \<Rightarrow> GraphQLEnumValueConfig plain ObjMap plain \<Rightarrow> error + GraphQLEnumValue list" where
  "defineEnumValues typeName valueMap =
     (case valueMap of
        NotPlainObj v \<Rightarrow> Inl (EnumValuesMustBeObject typeName)
      | PlainObj values \<Rightarrow>
          array_map (Object_entries values) (\<lambda>(valueName, valueConfig).
            case valueConfig of
              NotPlainObj v \<Rightarrow> Inl (EnumValueMustBeObject typeName valueName v)
            | PlainObj c \<Rightarrow>
                Inr \<lparr> ev_name = valueName,
                      ev_description = evc_description c,
                      ev_value =
                        (if read (evc_value c) \<noteq> JUndefined then read (evc_value c)
                         else JStr valueName),
                      ev_deprecationReason = evc_deprecationReason c,
                      ev_extensions = extensions_of (evc_extensions c),
                      ev_astNode = evc_astNode c \<rparr>))"

definition new_GraphQLEnumType :: "GraphQLEnumTypeConfig \<Rightarrow> error + GraphQLEnumType_obj" where
  "new_GraphQLEnumType config =
     and_then (defineEnumValues (etc_name config) (etc_values config)) (\<lambda>values.
     and_then (devAssert (is_string (etc_name config)) MustProvideName) (\<lambda>_.
       Inr \<lparr> en_name = etc_name config,
             en_description = etc_description config,
             en_extensions = extensions_of (etc_extensions config),
             en_astNode = etc_astNode config,
             en_extensionASTNodes =
               (case etc_extensionASTNodes config of None \<Rightarrow> [] | Some nodes \<Rightarrow> nodes),
             en_values = values,
             en_valueLookup = new_Map (map (\<lambda>enumValue. (ev_value enumValue, enumValue)) values),
             en_nameLookup = keyMap values ev_name \<rparr>))"

definition getValues :: "GraphQLEnumType_obj \<Rightarrow> GraphQLEnumValue list" where
  "getValues this = en_values this"

definition getValue :: "GraphQLEnumType_obj \<Rightarrow> string \<Rightarrow> GraphQLEnumValue option" where
  "getValue this name = get_property (en_nameLookup this) name"

definition serialize :: "GraphQLEnumType_obj \<Rightarrow> jsval \<Rightarrow> error + string" where
  "serialize this outputValue =
     (case Map_get (en_valueLookup this) outputValue of
        None \<Rightarrow> Inl (EnumCannotRepresentValue (en_name this) outputValue)
      | Some enumValue \<Rightarrow> Inr (ev_name enumValue))"

definition parseValue :: "GraphQLEnumType_obj \<Rightarrow> jsval \<Rightarrow> error + jsval" where
  "parseValue this inputValue =
     (case inputValue of
        JStr s \<Rightarrow>
          (case getValue this s of
             None \<Rightarrow>
               Inl (EnumValueDoesNotExist (en_name this) s (map ev_name (getValues this)))
           | Some enumValue \<Rightarrow> Inr (ev_value enumValue))
      | _ \<Rightarrow>
          Inl (EnumCannotRepresentNonString (en_name this) inputValue
                 (map ev_name (getValues this))))"

section \<open>Thunks\<close>

text \<open>
  \<^verbatim>\<open>ThunkArray<T>\<close> and \<^verbatim>\<open>ThunkObjMap<T>\<close>: a function without arguments, or a value that
  is not a function, so that \<open>v\<close> in \<open>NotThunk v\<close> is never a function. A thunk is
  code of the caller. It runs in the state of the program, \<open>'w\<close>, which it reads and
  may change in any way that code can: it may assign variables, change arrays and objects,
  and call the accessors of types, the accessor of the very type that is being resolved
  among them. It returns a value or throws.
\<close>

datatype ('w, 'a) thunk = Thunk "'w \<Rightarrow> (error + 'a) \<times> 'w" | NotThunk 'a

definition resolveArrayThunk :: "('w, 'a) thunk \<Rightarrow> 'w \<Rightarrow> (error + 'a) \<times> 'w" where
  "resolveArrayThunk thunk w = (case thunk of Thunk f \<Rightarrow> f w | NotThunk v \<Rightarrow> (Inr v, w))"

definition resolveObjMapThunk :: "('w, 'a) thunk \<Rightarrow> 'w \<Rightarrow> (error + 'a) \<times> 'w" where
  "resolveObjMapThunk thunk w = (case thunk of Thunk f \<Rightarrow> f w | NotThunk v \<Rightarrow> (Inr v, w))"

section \<open>Arguments and fields\<close>

record GraphQLArgumentConfig =
  ac_description :: jsval
  ac_type :: mixed
  ac_defaultValue :: "jsval option"
  ac_deprecationReason :: jsval
  ac_extensions :: jsval
  ac_astNode :: jsval

record GraphQLArgument =
  arg_name :: string
  arg_description :: jsval
  arg_type :: mixed
  arg_defaultValue :: jsval
  arg_deprecationReason :: jsval
  arg_extensions :: jsval
  arg_astNode :: jsval


record GraphQLField =
  f_name :: string
  f_description :: jsval
  f_type :: mixed
  f_args :: "GraphQLArgument list"
  f_resolve :: jsval
  f_subscribe :: jsval
  f_deprecationReason :: jsval
  f_extensions :: jsval
  f_astNode :: jsval

definition defineArguments :: "GraphQLArgumentConfig ObjMap \<Rightarrow> GraphQLArgument list" where
  "defineArguments config =
     map (\<lambda>(argName, argConfig).
            \<lparr> arg_name = argName,
              arg_description = ac_description argConfig,
              arg_type = ac_type argConfig,
              arg_defaultValue = read (ac_defaultValue argConfig),
              arg_deprecationReason = ac_deprecationReason argConfig,
              arg_extensions = extensions_of (ac_extensions argConfig),
              arg_astNode = ac_astNode argConfig \<rparr>)
         (Object_entries config)"

definition isRequiredArgument :: "GraphQLArgument \<Rightarrow> bool" where
  "isRequiredArgument arg = (isNonNullType (arg_type arg) \<and> arg_defaultValue arg = JUndefined)"

text \<open>
  \<open>ifc_resolve\<close> is the property \<^verbatim>\<open>resolve\<close>, which the type
  \<^verbatim>\<open>GraphQLInputFieldConfig\<close> does not have and a configuration may still carry.
\<close>

record GraphQLInputFieldConfig =
  ifc_description :: jsval
  ifc_type :: mixed
  ifc_defaultValue :: "jsval option"
  ifc_deprecationReason :: jsval
  ifc_extensions :: jsval
  ifc_astNode :: jsval
  ifc_resolve :: "jsval option"

record GraphQLInputField =
  if_name :: string
  if_description :: jsval
  if_type :: mixed
  if_defaultValue :: jsval
  if_deprecationReason :: jsval
  if_extensions :: jsval
  if_astNode :: jsval

definition isRequiredInputField :: "GraphQLInputField \<Rightarrow> bool" where
  "isRequiredInputField field = (isNonNullType (if_type field) \<and> if_defaultValue field = JUndefined)"

section \<open>The state of the program\<close>

text \<open>
  The objects that the accessors share with the rest of the program live in the state,
  each under its identity, where every holder of the identity finds them, changed or not.
  \<^item> \<open>w_fields w t\<close>, \<open>w_interfaces w t\<close> and \<open>w_types w t\<close> are the private members
    \<^verbatim>\<open>_fields\<close>, \<^verbatim>\<open>_interfaces\<close> and \<^verbatim>\<open>_types\<close> of the type with the identity \<open>t\<close>:
    \<open>None\<close> while the member is the function that the constructor stored, which is a
    \<^verbatim>\<open>define...\<close> function bound to the configuration, and \<open>Some r\<close> once it is the
    object \<open>r\<close> that this function returned, a field map or an array and never a
    function. \<^verbatim>\<open>typeof this._fields === 'function'\<close> is the case \<open>None\<close>.
  \<^item> \<open>w_field_maps w r\<close> and \<open>w_input_field_maps w r\<close> are the entries of the field
    map \<open>r\<close>, and \<open>w_arrays w r\<close> are the elements of the array \<open>r\<close>.
  \<^item> \<open>w_next w\<close> is the identity that the next new object gets.
  \<^item> \<open>w_vars w\<close> is everything else, the variables of the thunks among it.
\<close>

record 'e world =
  w_fields :: "ref \<Rightarrow> ref option"
  w_interfaces :: "ref \<Rightarrow> ref option"
  w_types :: "ref \<Rightarrow> ref option"
  w_field_maps :: "ref \<Rightarrow> GraphQLField ObjMap"
  w_input_field_maps :: "ref \<Rightarrow> GraphQLInputField ObjMap"
  w_arrays :: "ref \<Rightarrow> mixed list"
  w_next :: ref
  w_vars :: 'e

text \<open>
  A new object: the instance that \<^verbatim>\<open>new\<close> makes, the array of an array literal, the
  object that \<^verbatim>\<open>mapValue\<close> fills.
\<close>

definition new_object :: "'e world \<Rightarrow> ref \<times> 'e world" where
  "new_object w = (w_next w, w\<lparr>w_next := Suc (w_next w)\<rparr>)"

definition new_array :: "mixed list \<Rightarrow> 'e world \<Rightarrow> ref \<times> 'e world" where
  "new_array elements w =
     (w_next w, w\<lparr>w_arrays := (w_arrays w)(w_next w := elements), w_next := Suc (w_next w)\<rparr>)"


definition new_input_field_map :: "GraphQLInputField ObjMap \<Rightarrow> 'e world \<Rightarrow> ref \<times> 'e world" where
  "new_input_field_map entries w =
     (w_next w,
      w\<lparr>w_input_field_maps := (w_input_field_maps w)(w_next w := entries),
        w_next := Suc (w_next w)\<rparr>)"

section \<open>Fields and interfaces of object and interface types\<close>






section \<open>Object types\<close>






section \<open>Interface types\<close>






section \<open>Union types\<close>

text \<open>
  \<open>utc_types\<close> is a thunk, or the value of the property, an array \<open>JArr r\<close> as a rule.
\<close>

record 'w GraphQLUnionTypeConfig =
  utc_name :: jsval
  utc_description :: jsval
  utc_types :: "('w, jsval) thunk"
  utc_resolveType :: jsval
  utc_extensions :: jsval
  utc_astNode :: jsval
  utc_extensionASTNodes :: "jsval list option"

record 'e GraphQLUnionType_obj =
  ut_self :: ref
  ut_name :: jsval
  ut_description :: jsval
  ut_resolveType :: jsval
  ut_extensions :: jsval
  ut_astNode :: jsval
  ut_extensionASTNodes :: "jsval list"
  ut_config :: "'e world GraphQLUnionTypeConfig"

text \<open>
  \<^verbatim>\<open>Array.isArray(types)\<close> is the case \<open>JArr\<close>. What is returned is the array itself, by
  its identity: the one that the thunk returned, not a copy of it.
\<close>

definition defineTypes ::
  "'w GraphQLUnionTypeConfig \<Rightarrow> 'w \<Rightarrow> (error + ref) \<times> 'w" where
  "defineTypes config w =
     (case resolveArrayThunk (utc_types config) w of
        (Inl e, w') \<Rightarrow> (Inl e, w')
      | (Inr types, w') \<Rightarrow>
          (case types of
             JArr a \<Rightarrow> (Inr a, w')
           | _ \<Rightarrow> (Inl (TypesMustBeArray (utc_name config)), w')))"

definition new_GraphQLUnionType ::
  "'e world GraphQLUnionTypeConfig \<Rightarrow> 'e world \<Rightarrow>
     (error + 'e GraphQLUnionType_obj) \<times> 'e world" where
  "new_GraphQLUnionType config w =
     (case new_object w of
        (self, w') \<Rightarrow>
          (and_then (devAssert (is_string (utc_name config)) MustProvideName) (\<lambda>_.
           and_then
             (devAssert (nullish (utc_resolveType config) \<or> is_function (utc_resolveType config))
                (MustProvideFunction (utc_name config) ''resolveType'' (utc_resolveType config)))
             (\<lambda>_.
             Inr \<lparr> ut_self = self,
                   ut_name = utc_name config,
                   ut_description = utc_description config,
                   ut_resolveType = utc_resolveType config,
                   ut_extensions = extensions_of (utc_extensions config),
                   ut_astNode = utc_astNode config,
                   ut_extensionASTNodes =
                     (case utc_extensionASTNodes config of None \<Rightarrow> [] | Some nodes \<Rightarrow> nodes),
                   ut_config = config \<rparr>)),
           w'\<lparr>w_types := (w_types w')(self := None)\<rparr>))"

definition GraphQLUnionType_getTypes ::
  "'e GraphQLUnionType_obj \<Rightarrow> 'e world \<Rightarrow> (error + ref) \<times> 'e world" where
  "GraphQLUnionType_getTypes this w =
     (case w_types w (ut_self this) of
        None \<Rightarrow>
          (case defineTypes (ut_config this) w of
             (Inl e, w') \<Rightarrow> (Inl e, w')
           | (Inr types, w') \<Rightarrow>
               (Inr types, w'\<lparr>w_types := (w_types w')(ut_self this \<mapsto> types)\<rparr>))
      | Some types \<Rightarrow> (Inr types, w))"

section \<open>Input object types\<close>

record 'w GraphQLInputObjectTypeConfig =
  ioc_name :: jsval
  ioc_description :: jsval
  ioc_fields :: "('w, GraphQLInputFieldConfig plain ObjMap plain) thunk"
  ioc_extensions :: jsval
  ioc_astNode :: jsval
  ioc_extensionASTNodes :: "jsval list option"

record 'e GraphQLInputObjectType_obj =
  io_self :: ref
  io_name :: jsval
  io_description :: jsval
  io_extensions :: jsval
  io_astNode :: jsval
  io_extensionASTNodes :: "jsval list"
  io_config :: "'e world GraphQLInputObjectTypeConfig"

text \<open>
  \<^verbatim>\<open>'resolve' in fieldConfig\<close>: whether the object has the property, whatever its value.
  The operator throws a \<^verbatim>\<open>TypeError\<close> when its right operand is not an object. Of an
  object that is not a plain object (a function, an array) the model knows no property.
\<close>

fun is_object :: "jsval \<Rightarrow> bool" where
  "is_object (JFun r) = True"
| "is_object (JArr r) = True"
| "is_object (JObj r) = True"
| "is_object v = False"

fun resolve_in :: "GraphQLInputFieldConfig plain \<Rightarrow> error + bool" where
  "resolve_in (PlainObj c) = Inr (ifc_resolve c \<noteq> None)"
| "resolve_in (NotPlainObj v) = (if is_object v then Inr False else Inl (TypeError_in v))"

text \<open>The properties that \<^verbatim>\<open>defineInputFieldMap\<close> reads from a field configuration.\<close>

definition no_properties :: GraphQLInputFieldConfig where
  "no_properties =
     \<lparr> ifc_description = JUndefined, ifc_type = Val JUndefined, ifc_defaultValue = None,
       ifc_deprecationReason = JUndefined, ifc_extensions = JUndefined,
       ifc_astNode = JUndefined, ifc_resolve = None \<rparr>"

fun properties :: "GraphQLInputFieldConfig plain \<Rightarrow> GraphQLInputFieldConfig" where
  "properties (PlainObj c) = c"
| "properties (NotPlainObj v) = no_properties"

definition defineInputFieldMap ::
  "'env GraphQLInputObjectTypeConfig \<Rightarrow> 'env \<Rightarrow> (error + GraphQLInputField ObjMap) \<times> 'env" where
  "defineInputFieldMap config env =
     (case resolveObjMapThunk (ioc_fields config) env of
        (Inl e, env') \<Rightarrow> (Inl e, env')
      | (Inr fieldMap, env') \<Rightarrow>
          (case fieldMap of
             NotPlainObj v \<Rightarrow> (Inl (FieldsMustBeObject (ioc_name config)), env')
           | PlainObj fm \<Rightarrow>
               (mapValue fm (\<lambda>fieldConfig fieldName.
                  and_then (resolve_in fieldConfig) (\<lambda>has_resolve.
                  and_then
                    (devAssert (\<not> has_resolve) (InputFieldHasResolve (ioc_name config) fieldName))
                    (\<lambda>_.
                    Inr \<lparr> if_name = fieldName,
                          if_description = ifc_description (properties fieldConfig),
                          if_type = ifc_type (properties fieldConfig),
                          if_defaultValue = read (ifc_defaultValue (properties fieldConfig)),
                          if_deprecationReason = ifc_deprecationReason (properties fieldConfig),
                          if_extensions = extensions_of (ifc_extensions (properties fieldConfig)),
                          if_astNode = ifc_astNode (properties fieldConfig) \<rparr>))),
                env')))"

definition new_GraphQLInputObjectType ::
  "'e world GraphQLInputObjectTypeConfig \<Rightarrow> 'e world \<Rightarrow>
     (error + 'e GraphQLInputObjectType_obj) \<times> 'e world" where
  "new_GraphQLInputObjectType config w =
     (case new_object w of
        (self, w') \<Rightarrow>
          (and_then (devAssert (is_string (ioc_name config)) MustProvideName) (\<lambda>_.
             Inr \<lparr> io_self = self,
                   io_name = ioc_name config,
                   io_description = ioc_description config,
                   io_extensions = extensions_of (ioc_extensions config),
                   io_astNode = ioc_astNode config,
                   io_extensionASTNodes =
                     (case ioc_extensionASTNodes config of None \<Rightarrow> [] | Some nodes \<Rightarrow> nodes),
                   io_config = config \<rparr>),
           w'\<lparr>w_fields := (w_fields w')(self := None)\<rparr>))"

definition GraphQLInputObjectType_getFields ::
  "'e GraphQLInputObjectType_obj \<Rightarrow> 'e world \<Rightarrow> (error + ref) \<times> 'e world" where
  "GraphQLInputObjectType_getFields this w =
     (case w_fields w (io_self this) of
        None \<Rightarrow>
          (case defineInputFieldMap (io_config this) w of
             (Inl e, w') \<Rightarrow> (Inl e, w')
           | (Inr fs, w') \<Rightarrow>
               (case new_input_field_map fs w' of
                  (m, w'') \<Rightarrow>
                    (Inr m, w''\<lparr>w_fields := (w_fields w'')(io_self this \<mapsto> m)\<rparr>)))
      | Some m \<Rightarrow> (Inr m, w))"

text \<open>
  \<^verbatim>\<open>toConfig\<close> forces the fields, reads the entries of the field map and writes each
  field back as a configuration, with the properties \<^verbatim>\<open>description\<close>, \<^verbatim>\<open>type\<close>,
  \<^verbatim>\<open>defaultValue\<close>, \<^verbatim>\<open>extensions\<close> and \<^verbatim>\<open>astNode\<close>.
\<close>

definition GraphQLInputObjectType_toConfig ::
  "'e GraphQLInputObjectType_obj \<Rightarrow> 'e world \<Rightarrow>
     (error + 'e world GraphQLInputObjectTypeConfig) \<times> 'e world" where
  "GraphQLInputObjectType_toConfig this w =
     (case GraphQLInputObjectType_getFields this w of
        (Inl e, w') \<Rightarrow> (Inl e, w')
      | (Inr m, w') \<Rightarrow>
          (and_then
             (mapValue (w_input_field_maps w' m) (\<lambda>field _.
                Inr (PlainObj
                  \<lparr> ifc_description = if_description field,
                    ifc_type = if_type field,
                    ifc_defaultValue = Some (if_defaultValue field),
                    ifc_deprecationReason = JUndefined,
                    ifc_extensions = if_extensions field,
                    ifc_astNode = if_astNode field,
                    ifc_resolve = None \<rparr>)))
             (\<lambda>fieldsConfig.
                Inr \<lparr> ioc_name = io_name this,
                      ioc_description = io_description this,
                      ioc_fields = NotThunk (PlainObj fieldsConfig),
                      ioc_extensions = io_extensions this,
                      ioc_astNode = io_astNode this,
                      ioc_extensionASTNodes = Some (io_extensionASTNodes this) \<rparr>),
           w'))"

section \<open>Calling an accessor again and again\<close>


section \<open>Round trip of an input object type\<close>

text \<open>
  A type is built from a configuration, its fields are forced, \<^verbatim>\<open>toConfig\<close> gives the
  round-trip configuration and a second type is built from that. The result is the
  entries of the field map of the first type and those of the second.
\<close>

definition input_object_round_trip ::
  "'e world GraphQLInputObjectTypeConfig \<Rightarrow> 'e world \<Rightarrow>
     error + GraphQLInputField ObjMap \<times> GraphQLInputField ObjMap" where
  "input_object_round_trip config w =
     (case new_GraphQLInputObjectType config w of
        (Inl e, w1) \<Rightarrow> Inl e
      | (Inr first, w1) \<Rightarrow>
          (case GraphQLInputObjectType_toConfig first w1 of
             (Inl e, w2) \<Rightarrow> Inl e
           | (Inr config', w2) \<Rightarrow>
               (case GraphQLInputObjectType_getFields first w2 of
                  (Inl e, w3) \<Rightarrow> Inl e
                | (Inr m1, w3) \<Rightarrow>
                    (case new_GraphQLInputObjectType config' w3 of
                       (Inl e, w4) \<Rightarrow> Inl e
                     | (Inr second, w4) \<Rightarrow>
                         (case GraphQLInputObjectType_getFields second w4 of
                            (Inl e, w5) \<Rightarrow> Inl e
                          | (Inr m2, w5) \<Rightarrow>
                              Inr (w_input_field_maps w5 m1, w_input_field_maps w5 m2))))))"


section \<open>Example configurations\<close>

text \<open>The value configuration \<^verbatim>\<open>{ value: v }\<close>, or \<^verbatim>\<open>{}\<close> when there is no \<^verbatim>\<open>value\<close>.\<close>

definition value_config :: "jsval option \<Rightarrow> GraphQLEnumValueConfig" where
  "value_config v =
     \<lparr> evc_description = JUndefined, evc_value = v, evc_deprecationReason = JUndefined,
       evc_extensions = JUndefined, evc_astNode = JUndefined \<rparr>"

text \<open>The enum configuration \<^verbatim>\<open>{ name, values }\<close>.\<close>

definition enum_config ::
  "string \<Rightarrow> GraphQLEnumValueConfig plain ObjMap \<Rightarrow> GraphQLEnumTypeConfig" where
  "enum_config name vs =
     \<lparr> etc_name = JStr name, etc_description = JUndefined, etc_values = PlainObj vs,
       etc_extensions = JUndefined, etc_astNode = JUndefined, etc_extensionASTNodes = None \<rparr>"

text \<open>\<^verbatim>\<open>{ name: 'E', values: { A: { value: 1 }, B: { value: 1 } } }\<close>\<close>

definition collision_enum :: GraphQLEnumTypeConfig where
  "collision_enum =
     enum_config ''E''
       [(''A'', PlainObj (value_config (Some (JNum 1)))),
        (''B'', PlainObj (value_config (Some (JNum 1))))]"

text \<open>The example of the source: \<^verbatim>\<open>RED\<close>, \<^verbatim>\<open>GREEN\<close> and \<^verbatim>\<open>BLUE\<close> with the values 0, 1, 2.\<close>

definition rgb_enum :: GraphQLEnumTypeConfig where
  "rgb_enum =
     enum_config ''RGB''
       [(''RED'', PlainObj (value_config (Some (JNum 0)))),
        (''GREEN'', PlainObj (value_config (Some (JNum 1)))),
        (''BLUE'', PlainObj (value_config (Some (JNum 2))))]"

text \<open>
  \<^verbatim>\<open>{ GIVEN: { value: 7 }, NULL: { value: null }, OMITTED: {}, UNDEFINED: { value: undefined } }\<close>
\<close>

definition defaults_enum :: GraphQLEnumTypeConfig where
  "defaults_enum =
     enum_config ''D''
       [(''GIVEN'', PlainObj (value_config (Some (JNum 7)))),
        (''NULL'', PlainObj (value_config (Some JNull))),
        (''OMITTED'', PlainObj (value_config None)),
        (''UNDEFINED'', PlainObj (value_config (Some JUndefined)))]"

text \<open>An argument and an input field with a given type and default value.\<close>

definition argument :: "mixed \<Rightarrow> jsval \<Rightarrow> GraphQLArgument" where
  "argument ty dv =
     \<lparr> arg_name = ''a'', arg_description = JUndefined, arg_type = ty, arg_defaultValue = dv,
       arg_deprecationReason = JUndefined, arg_extensions = JUndefined, arg_astNode = JUndefined \<rparr>"

definition input_field :: "mixed \<Rightarrow> jsval \<Rightarrow> GraphQLInputField" where
  "input_field ty dv =
     \<lparr> if_name = ''f'', if_description = JUndefined, if_type = ty, if_defaultValue = dv,
       if_deprecationReason = JUndefined, if_extensions = JUndefined, if_astNode = JUndefined \<rparr>"

text \<open>The argument configuration \<^verbatim>\<open>{ type, defaultValue }\<close>, or \<^verbatim>\<open>{ type }\<close>.\<close>

definition argument_config :: "mixed \<Rightarrow> jsval option \<Rightarrow> GraphQLArgumentConfig" where
  "argument_config ty dv =
     \<lparr> ac_description = JUndefined, ac_type = ty, ac_defaultValue = dv,
       ac_deprecationReason = JUndefined, ac_extensions = JUndefined, ac_astNode = JUndefined \<rparr>"

text \<open>
  The input field configuration \<^verbatim>\<open>{ type, deprecationReason }\<close>, with or without a
  property \<^verbatim>\<open>resolve\<close>, and the input object configuration \<^verbatim>\<open>{ name, fields }\<close>.
\<close>

definition input_field_config :: "mixed \<Rightarrow> jsval \<Rightarrow> jsval option \<Rightarrow> GraphQLInputFieldConfig" where
  "input_field_config ty reason resolve =
     \<lparr> ifc_description = JUndefined, ifc_type = ty, ifc_defaultValue = None,
       ifc_deprecationReason = reason, ifc_extensions = JUndefined,
       ifc_astNode = JUndefined, ifc_resolve = resolve \<rparr>"

definition input_object_config ::
  "string \<Rightarrow> GraphQLInputFieldConfig plain ObjMap \<Rightarrow> 'w GraphQLInputObjectTypeConfig" where
  "input_object_config name fs =
     \<lparr> ioc_name = JStr name, ioc_description = JUndefined,
       ioc_fields = NotThunk (PlainObj fs), ioc_extensions = JUndefined,
       ioc_astNode = JUndefined, ioc_extensionASTNodes = None \<rparr>"

text \<open>\<^verbatim>\<open>{ name: 'Filter', fields: { old: { type, deprecationReason: 'use new' } } }\<close>\<close>

definition deprecated_input :: "'w GraphQLInputObjectTypeConfig" where
  "deprecated_input =
     input_object_config ''Filter''
       [(''old'', PlainObj (input_field_config (Ty (ScalarT 0)) (JStr ''use new'') None))]"

text \<open>The union configuration \<^verbatim>\<open>{ name, types }\<close>.\<close>

definition union_config :: "string \<Rightarrow> ('w, jsval) thunk \<Rightarrow> 'w GraphQLUnionTypeConfig" where
  "union_config name ts =
     \<lparr> utc_name = JStr name, utc_description = JUndefined, utc_types = ts,
       utc_resolveType = JUndefined, utc_extensions = JUndefined, utc_astNode = JUndefined,
       utc_extensionASTNodes = None \<rparr>"



text \<open>The state of a program that has made no object yet, with the variables \<open>vars\<close>.\<close>

definition start :: "'e \<Rightarrow> 'e world" where
  "start vars =
     \<lparr> w_fields = (\<lambda>_. None), w_interfaces = (\<lambda>_. None), w_types = (\<lambda>_. None),
       w_field_maps = (\<lambda>_. []), w_input_field_maps = (\<lambda>_. []), w_arrays = (\<lambda>_. []),
       w_next = 0, w_vars = vars \<rparr>"

text \<open>
  A program with one variable, a counter \<^verbatim>\<open>n\<close> that is 0, and two arrays,
  \<^verbatim>\<open>dogs = [Dog]\<close> with the identity 0 and \<^verbatim>\<open>cats = [Cat]\<close> with the identity 1.
\<close>

definition Dog :: mixed where
  "Dog = Ty (ObjectT 10)"

definition Cat :: mixed where
  "Cat = Ty (ObjectT 11)"

definition pets_world :: "nat world" where
  "pets_world = snd (new_array [Cat] (snd (new_array [Dog] (start 0))))"

text \<open>\<^verbatim>\<open>n++\<close>, and \<^verbatim>\<open>array.push(x)\<close>.\<close>

definition bump :: "nat world \<Rightarrow> nat world" where
  "bump w = w\<lparr>w_vars := Suc (w_vars w)\<rparr>"

definition push :: "ref \<Rightarrow> mixed \<Rightarrow> 'e world \<Rightarrow> 'e world" where
  "push array x w = w\<lparr>w_arrays := (w_arrays w)(array := w_arrays w array @ [x])\<rparr>"




text \<open>
  The union \<^verbatim>\<open>Pet = new GraphQLUnionType({ name: 'Pet', types })\<close>, made by the program
  above, where \<^verbatim>\<open>types\<close> is \<open>ts\<close>, and the state of the program after that.
\<close>

definition Pet :: "(nat world, jsval) thunk \<Rightarrow> nat GraphQLUnionType_obj" where
  "Pet ts = projr (fst (new_GraphQLUnionType (union_config ''Pet'' ts) pets_world))"

definition Pet_world :: "nat world" where
  "Pet_world = snd (new_GraphQLUnionType (union_config ''Pet'' (NotThunk JUndefined)) pets_world)"

text \<open>
  A thunk that calls the accessor of the type whose members it gives:
  \<^verbatim>\<open>() => { if (n++ === 0) { Pet.getTypes(); return dogs; } return cats; }\<close>, where
  \<^verbatim>\<open>Pet\<close> is the union made with this thunk. \<open>calling_thunk call\<close> is the thunk with
  \<open>call\<close> for \<^verbatim>\<open>Pet.getTypes\<close>. The call is made when \<^verbatim>\<open>n\<close> is 1, where an
  invocation of the thunk comes to \<^verbatim>\<open>n++; return cats;\<close>, which is \<open>later_thunk\<close>;
  \<open>reentrant_thunk\<close> is defined with it, and \<open>reentrant_thunk_calls_its_own_type\<close>
  below shows that \<open>reentrant_thunk\<close> is the thunk that calls \<^verbatim>\<open>getTypes\<close> of the union
  made with \<open>reentrant_thunk\<close> itself.
\<close>

definition calling_thunk ::
  "(nat world \<Rightarrow> (error + ref) \<times> nat world) \<Rightarrow> nat world \<Rightarrow> (error + jsval) \<times> nat world" where
  "calling_thunk call w =
     (if w_vars w = 0 then
        (case call (bump w) of
           (Inl e, w') \<Rightarrow> (Inl e, w')
         | (Inr types, w') \<Rightarrow> (Inr (JArr 0), w'))
      else (Inr (JArr 1), bump w))"

definition later_thunk :: "nat world \<Rightarrow> (error + jsval) \<times> nat world" where
  "later_thunk w = (Inr (JArr 1), bump w)"

definition reentrant_thunk :: "nat world \<Rightarrow> (error + jsval) \<times> nat world" where
  "reentrant_thunk = calling_thunk (GraphQLUnionType_getTypes (Pet (Thunk later_thunk)))"




section \<open>Properties of the predicates and of unwrapping\<close>

lemmas kind_defs = isScalarType_def isObjectType_def isInterfaceType_def isUnionType_def
  isEnumType_def isInputObjectType_def isListType_def isNonNullType_def

lemma isInputType_Val: "isInputType (Val v) = False"
  by (subst isInputType.simps) (simp add: kind_defs isWrappingType_def)

lemma isInputType_wrap:
  "isInputType (Ty (ListT t)) = isInputType (Ty t)"
  "isInputType (Ty (NonNullT t)) = isInputType (Ty t)"
  by (subst isInputType.simps, simp add: kind_defs isWrappingType_def)+

lemma isOutputType_wrap:
  "isOutputType (Ty (ListT t)) = isOutputType (Ty t)"
  "isOutputType (Ty (NonNullT t)) = isOutputType (Ty t)"
  by (subst isOutputType.simps, simp add: kind_defs isWrappingType_def)+

lemma isInputType_named:
  "isInputType (Ty (ScalarT r))" "isInputType (Ty (EnumT r))" "isInputType (Ty (InputObjectT r))"
  "\<not> isInputType (Ty (ObjectT r))" "\<not> isInputType (Ty (InterfaceT r))" "\<not> isInputType (Ty (UnionT r))"
  by (subst isInputType.simps, simp add: kind_defs isWrappingType_def)+

lemma isOutputType_named:
  "isOutputType (Ty (ScalarT r))" "isOutputType (Ty (EnumT r))" "\<not> isOutputType (Ty (InputObjectT r))"
  "isOutputType (Ty (ObjectT r))" "isOutputType (Ty (InterfaceT r))" "isOutputType (Ty (UnionT r))"
  by (subst isOutputType.simps, simp add: kind_defs isWrappingType_def)+

lemma isType_Ty: "isType (Ty t)"
  by (cases t) (simp_all add: isType_def kind_defs)

lemma isType_Val: "\<not> isType (Val v)"
  by (simp add: isType_def kind_defs)

lemma isNullableType_Ty: "isNullableType (Ty t) = (class_of t \<noteq> GraphQLNonNull)"
  by (simp add: isNullableType_def isType_Ty isNonNullType_def)

lemma isNullableType_Val: "\<not> isNullableType (Val v)"
  by (simp add: isNullableType_def isType_Val)

lemma new_GraphQLList_Ty: "new_GraphQLList (Ty t) = Inr (ListT t)"
  by (simp add: new_GraphQLList_def devAssert_def and_then_def isType_Ty)

lemma new_GraphQLNonNull_Ty:
  "new_GraphQLNonNull (Ty t) =
     (if class_of t = GraphQLNonNull then Inl (ExpectedNullableType (Ty t)) else Inr (NonNullT t))"
  by (simp add: new_GraphQLNonNull_def devAssert_def and_then_def isNullableType_Ty)

lemma new_GraphQLNonNull_Val: "new_GraphQLNonNull (Val v) = Inl (ExpectedNullableType (Val v))"
  by (simp add: new_GraphQLNonNull_def devAssert_def and_then_def isNullableType_Val)

lemma unwrap_loop_wrap:
  "unwrap_loop (Ty (ListT t)) = unwrap_loop (Ty t)"
  "unwrap_loop (Ty (NonNullT t)) = unwrap_loop (Ty t)"
  by (subst unwrap_loop.simps, simp add: kind_defs isWrappingType_def)+

lemma unwrap_loop_fix: "\<not> isWrappingType ty \<Longrightarrow> unwrap_loop ty = ty"
  by (subst unwrap_loop.simps) simp

lemma isNamedType_not_wrapping: "isNamedType ty \<Longrightarrow> \<not> isWrappingType ty"
  by (cases ty rule: ofType.cases) (auto simp add: isNamedType_def isWrappingType_def kind_defs)

lemma unwrap_loop_wrap_named: "isNamedType (Ty T) \<Longrightarrow> unwrap_loop (Ty (wrap ws T)) = Ty T"
  by (induction ws T rule: wrap.induct)
     (simp_all add: unwrap_loop_wrap unwrap_loop_fix isNamedType_not_wrapping)

lemma layers_nonempty: "layers t \<noteq> []"
  by (cases t) simp_all

lemma unwrap_loop_last: "unwrap_loop (Ty t) = Ty (last (layers t))"
  by (induction t)
     (simp_all add: unwrap_loop_wrap unwrap_loop_fix isWrappingType_def kind_defs layers_nonempty)

lemma hd_layers: "t \<in> set (layers t)"
  by (cases t) simp_all

text \<open>
  Claim C3. Constructing \<^verbatim>\<open>GraphQLNonNull\<close> on a value succeeds
  exactly when the value is a nullable type, and a type is nullable exactly when it is of
  one of the classes other than \<^verbatim>\<open>GraphQLNonNull\<close>; on any other
  value the constructor itself returns the error that names the value, so the failure is
  that of the construction and nothing is built. In particular, for every named type
  \<open>T\<close> the first wrapping succeeds and wrapping its result again fails.
\<close>

theorem NonNull_wraps_nullable_only:
  "((\<exists>n. new_GraphQLNonNull ty = Inr n) \<longleftrightarrow> isNullableType ty)
   \<and> (isNullableType (Ty t) \<longleftrightarrow> class_of t \<noteq> GraphQLNonNull)
   \<and> (\<not> isNullableType ty \<longrightarrow> new_GraphQLNonNull ty = Inl (ExpectedNullableType ty))
   \<and> (isNamedType (Ty T) \<longrightarrow>
        new_GraphQLNonNull (Ty T) = Inr (NonNullT T) \<and>
        and_then (new_GraphQLNonNull (Ty T)) (\<lambda>n. new_GraphQLNonNull (Ty n))
          = Inl (ExpectedNullableType (Ty (NonNullT T))))"
proof -
  have a: "(\<exists>n. new_GraphQLNonNull ty = Inr n) \<longleftrightarrow> isNullableType ty"
    by (cases ty) (simp_all add: new_GraphQLNonNull_Ty new_GraphQLNonNull_Val isNullableType_Ty isNullableType_Val)
  have c: "\<not> isNullableType ty \<longrightarrow> new_GraphQLNonNull ty = Inl (ExpectedNullableType ty)"
    by (cases ty) (simp_all add: new_GraphQLNonNull_Ty new_GraphQLNonNull_Val isNullableType_Ty)
  have d: "isNamedType (Ty T) \<longrightarrow>
        new_GraphQLNonNull (Ty T) = Inr (NonNullT T) \<and>
        and_then (new_GraphQLNonNull (Ty T)) (\<lambda>n. new_GraphQLNonNull (Ty n))
          = Inl (ExpectedNullableType (Ty (NonNullT T)))"
    by (cases T) (simp_all add: new_GraphQLNonNull_Ty and_then_def isNamedType_def kind_defs)
  have b: "isNullableType (Ty t) \<longleftrightarrow> class_of t \<noteq> GraphQLNonNull"
    by (rule isNullableType_Ty)
  from a b c d show ?thesis by blast
qed

theorem NonNull_wraps_nullable_only_witness:
  "isNamedType (Ty (ScalarT 0)) \<and> new_GraphQLNonNull (Ty (ScalarT 0)) = Inr (NonNullT (ScalarT 0))
   \<and> \<not> isNullableType (Ty (NonNullT (ScalarT 0)))
   \<and> new_GraphQLNonNull (Ty (NonNullT (ScalarT 0))) = Inl (ExpectedNullableType (Ty (NonNullT (ScalarT 0))))"
  using NonNull_wraps_nullable_only [of "Ty (NonNullT (ScalarT 0))" "ScalarT 0" "ScalarT 0"]
  by (simp add: isNamedType_def isScalarType_def isNullableType_Ty)

text \<open>
  Claim C8. \<^verbatim>\<open>getNullableType\<close> takes one outer non-null layer off
  and leaves any other type as it is; \<^verbatim>\<open>getNamedType\<close>, on any stack
  \<open>ws\<close> of list and non-null layers around a named type \<open>T\<close>,
  whatever its depth, gives \<open>T\<close>. On \<^verbatim>\<open>undefined\<close> and
  on \<^verbatim>\<open>null\<close> both give \<^verbatim>\<open>undefined\<close>. Both
  are total functions (the loop of \<^verbatim>\<open>getNamedType\<close> is
  \<open>unwrap_loop\<close>, which terminates on every value), and what they give for a
  type is one of the layers of that type: no type is made.
\<close>

theorem unwrapping_strips_layers:
  "getNullableType (Ty (NonNullT t)) = Ty t
   \<and> (\<not> isNonNullType (Ty t) \<longrightarrow> getNullableType (Ty t) = Ty t)
   \<and> (isNamedType (Ty T) \<longrightarrow> getNamedType (Ty (wrap ws T)) = Ty T)
   \<and> getNullableType (Val JUndefined) = Val JUndefined
   \<and> getNullableType (Val JNull) = Val JUndefined
   \<and> getNamedType (Val JUndefined) = Val JUndefined
   \<and> getNamedType (Val JNull) = Val JUndefined
   \<and> (\<exists>u. u \<in> set (layers t) \<and> getNullableType (Ty t) = Ty u)
   \<and> (\<exists>u. u \<in> set (layers t) \<and> getNamedType (Ty t) = Ty u)"
proof -
  have e: "\<exists>u. u \<in> set (layers t) \<and> getNullableType (Ty t) = Ty u"
    by (cases t) (auto simp add: getNullableType_def kind_defs hd_layers)
  have f: "\<exists>u. u \<in> set (layers t) \<and> getNamedType (Ty t) = Ty u"
    using layers_nonempty[of t] by (simp add: getNamedType_def unwrap_loop_last)
  show ?thesis using e f
    by (simp add: getNullableType_def getNamedType_def unwrap_loop_wrap_named kind_defs)
qed

theorem unwrapping_strips_layers_witness:
  "isNamedType (Ty (EnumT 3)) \<and>
   getNamedType (Ty (wrap [WNonNull, WList, WNonNull] (EnumT 3))) = Ty (EnumT 3) \<and>
   \<not> isNonNullType (Ty (ListT (EnumT 3))) \<and>
   getNullableType (Ty (ListT (EnumT 3))) = Ty (ListT (EnumT 3))"
  using unwrapping_strips_layers [of "ListT (EnumT 3)" "EnumT 3" "[WNonNull, WList, WNonNull]"]
  by (simp add: isNamedType_def kind_defs)

text \<open>
  Claim C9. Each of \<^verbatim>\<open>isInputType\<close> and
  \<^verbatim>\<open>isOutputType\<close>, when it holds of a type, holds of the list of
  that type and of the non-null of that type: of the wrapping objects as such, of the list
  that the constructor builds, and of the non-null whenever the constructor builds one.
\<close>

theorem input_output_closed_under_wrapping:
  "(isInputType (Ty t) \<longrightarrow>
      isInputType (Ty (ListT t)) \<and> isInputType (Ty (NonNullT t)) \<and>
      (\<exists>l. new_GraphQLList (Ty t) = Inr l \<and> isInputType (Ty l)) \<and>
      (\<forall>n. new_GraphQLNonNull (Ty t) = Inr n \<longrightarrow> isInputType (Ty n)))
   \<and> (isOutputType (Ty t) \<longrightarrow>
      isOutputType (Ty (ListT t)) \<and> isOutputType (Ty (NonNullT t)) \<and>
      (\<exists>l. new_GraphQLList (Ty t) = Inr l \<and> isOutputType (Ty l)) \<and>
      (\<forall>n. new_GraphQLNonNull (Ty t) = Inr n \<longrightarrow> isOutputType (Ty n)))"
proof (intro conjI impI)
  assume i: "isInputType (Ty t)"
  then show "isInputType (Ty (ListT t))" "isInputType (Ty (NonNullT t))"
    by (simp_all add: isInputType_wrap)
  from i show "\<exists>l. new_GraphQLList (Ty t) = Inr l \<and> isInputType (Ty l)"
    by (simp add: new_GraphQLList_Ty isInputType_wrap)
  from i show "\<forall>n. new_GraphQLNonNull (Ty t) = Inr n \<longrightarrow> isInputType (Ty n)"
    by (auto simp add: new_GraphQLNonNull_Ty isInputType_wrap split: if_splits)
next
  assume o: "isOutputType (Ty t)"
  then show "isOutputType (Ty (ListT t))" "isOutputType (Ty (NonNullT t))"
    by (simp_all add: isOutputType_wrap)
  from o show "\<exists>l. new_GraphQLList (Ty t) = Inr l \<and> isOutputType (Ty l)"
    by (simp add: new_GraphQLList_Ty isOutputType_wrap)
  from o show "\<forall>n. new_GraphQLNonNull (Ty t) = Inr n \<longrightarrow> isOutputType (Ty n)"
    by (auto simp add: new_GraphQLNonNull_Ty isOutputType_wrap split: if_splits)
qed

theorem input_output_closed_under_wrapping_witness:
  "isInputType (Ty (ScalarT 0)) \<and> isInputType (Ty (ListT (ScalarT 0))) \<and>
   isInputType (Ty (NonNullT (ScalarT 0))) \<and>
   new_GraphQLNonNull (Ty (ScalarT 0)) = Inr (NonNullT (ScalarT 0)) \<and>
   isOutputType (Ty (ObjectT 1)) \<and> isOutputType (Ty (ListT (ObjectT 1))) \<and>
   isOutputType (Ty (NonNullT (ObjectT 1)))"
  using input_output_closed_under_wrapping [of "ScalarT 0"] input_output_closed_under_wrapping [of "ObjectT 1"]
  by (simp add: isInputType_named isOutputType_named new_GraphQLNonNull_Ty)

section \<open>Properties of maps\<close>

lemma map_of_set_entry: "map_of (set_entry m k v) = (map_of m)(k \<mapsto> v)"
  by (induction m k v rule: set_entry.induct) (auto simp add: fun_eq_iff)

lemma map_of_foldl_set_entry:
  "map_of (foldl (\<lambda>m (key, v). set_entry m key v) m es) = map_of m ++ map_of (rev es)"
proof (induction es arbitrary: m)
  case Nil
  then show ?case by simp
next
  case (Cons x es)
  obtain k v where x: "x = (k, v)" by (cases x)
  have "map_of (foldl (\<lambda>m (key, v). set_entry m key v) (set_entry m k v) es)
          = map_of (set_entry m k v) ++ map_of (rev es)"
    by (rule Cons.IH)
  also have "\<dots> = map_of m ++ map_of (rev es @ [(k, v)])"
    by (rule ext) (simp add: map_of_set_entry map_add_def split: option.splits)
  finally show ?case by (simp add: x)
qed

lemma Map_get_new_Map: "Map_get (new_Map es) key = map_of (rev es) key"
  by (simp add: Map_get_def new_Map_def map_of_foldl_set_entry)

lemma map_of_foldl_keyMap:
  "map_of (foldl (\<lambda>m item. set_entry m (keyFn item) item) m xs)
     = map_of m ++ map_of (rev (map (\<lambda>item. (keyFn item, item)) xs))"
proof (induction xs arbitrary: m)
  case Nil
  then show ?case by simp
next
  case (Cons x xs)
  have "map_of (foldl (\<lambda>m item. set_entry m (keyFn item) item) (set_entry m (keyFn x) x) xs)
          = map_of (set_entry m (keyFn x) x) ++ map_of (rev (map (\<lambda>item. (keyFn item, item)) xs))"
    by (rule Cons.IH)
  also have "\<dots> = map_of m ++ map_of (rev (map (\<lambda>item. (keyFn item, item)) xs) @ [(keyFn x, x)])"
    by (rule ext) (simp add: map_of_set_entry map_add_def split: option.splits)
  finally show ?case by simp
qed

lemma get_property_keyMap:
  "get_property (keyMap xs keyFn) key = map_of (rev (map (\<lambda>item. (keyFn item, item)) xs)) key"
  by (simp add: get_property_def keyMap_def map_of_foldl_keyMap)

text \<open>Looking a key up from the end of a list finds the last element with that key.\<close>

lemma map_of_rev_keyed_Some:
  "map_of (rev (map (\<lambda>x. (f x, x)) xs)) k = Some y \<longleftrightarrow>
     (\<exists>j < length xs. xs ! j = y \<and> f y = k \<and> (\<forall>i. j < i \<and> i < length xs \<longrightarrow> f (xs ! i) \<noteq> k))"
proof (induction xs rule: rev_induct)
  case Nil
  then show ?case by simp
next
  case (snoc x xs)
  show ?case
  proof (cases "f x = k")
    case True
    have "(\<exists>j < length (xs @ [x]). (xs @ [x]) ! j = y \<and> f y = k \<and>
            (\<forall>i. j < i \<and> i < length (xs @ [x]) \<longrightarrow> f ((xs @ [x]) ! i) \<noteq> k)) \<longleftrightarrow> x = y"
    proof
      assume "\<exists>j < length (xs @ [x]). (xs @ [x]) ! j = y \<and> f y = k \<and>
            (\<forall>i. j < i \<and> i < length (xs @ [x]) \<longrightarrow> f ((xs @ [x]) ! i) \<noteq> k)"
      then obtain j where j: "j < length (xs @ [x])" "(xs @ [x]) ! j = y"
        "\<forall>i. j < i \<and> i < length (xs @ [x]) \<longrightarrow> f ((xs @ [x]) ! i) \<noteq> k" by blast
      have "\<not> j < length xs"
      proof
        assume "j < length xs"
        with j(3)[rule_format, of "length xs"] have "f ((xs @ [x]) ! length xs) \<noteq> k"
          by simp
        with True show False by simp
      qed
      with j(1) have "j = length xs" by simp
      with j(2) show "x = y" by simp
    next
      assume "x = y"
      with True show "\<exists>j < length (xs @ [x]). (xs @ [x]) ! j = y \<and> f y = k \<and>
            (\<forall>i. j < i \<and> i < length (xs @ [x]) \<longrightarrow> f ((xs @ [x]) ! i) \<noteq> k)"
        by (intro exI[of _ "length xs"]) auto
    qed
    with True show ?thesis by simp
  next
    case False
    have "(\<exists>j < length (xs @ [x]). (xs @ [x]) ! j = y \<and> f y = k \<and>
            (\<forall>i. j < i \<and> i < length (xs @ [x]) \<longrightarrow> f ((xs @ [x]) ! i) \<noteq> k)) \<longleftrightarrow>
          (\<exists>j < length xs. xs ! j = y \<and> f y = k \<and> (\<forall>i. j < i \<and> i < length xs \<longrightarrow> f (xs ! i) \<noteq> k))"
      (is "?L \<longleftrightarrow> ?R")
    proof
      assume ?L
      then obtain j where j: "j < length (xs @ [x])" "(xs @ [x]) ! j = y" "f y = k"
        "\<forall>i. j < i \<and> i < length (xs @ [x]) \<longrightarrow> f ((xs @ [x]) ! i) \<noteq> k" by blast
      have jl: "j < length xs"
      proof (rule ccontr)
        assume "\<not> j < length xs"
        with j(1) have "j = length xs" by simp
        with j(2) j(3) False show False by simp
      qed
      have "\<forall>i. j < i \<and> i < length xs \<longrightarrow> f (xs ! i) \<noteq> k"
      proof (intro allI impI)
        fix i assume i: "j < i \<and> i < length xs"
        with j(4)[rule_format, of i] have "f ((xs @ [x]) ! i) \<noteq> k" by simp
        with i show "f (xs ! i) \<noteq> k" by (simp add: nth_append)
      qed
      with jl j(2) j(3) show ?R by (auto simp add: nth_append)
    next
      assume ?R
      then obtain j where j: "j < length xs" "xs ! j = y" "f y = k"
        "\<forall>i. j < i \<and> i < length xs \<longrightarrow> f (xs ! i) \<noteq> k" by blast
      have "\<forall>i. j < i \<and> i < length (xs @ [x]) \<longrightarrow> f ((xs @ [x]) ! i) \<noteq> k"
        using j(4) False by (auto simp add: nth_append)
      with j(1) j(2) j(3) show ?L
        by (intro exI[of _ j]) (auto simp add: nth_append)
    qed
    with False snoc.IH show ?thesis by simp
  qed
qed

section \<open>Properties of enum types\<close>

lemma array_map_Inr:
  "array_map xs fn = Inr ys \<Longrightarrow>
     length ys = length xs \<and> (\<forall>i < length xs. fn (xs ! i) = Inr (ys ! i))"
proof (induction xs arbitrary: ys)
  case Nil
  then show ?case by simp
next
  case (Cons x xs)
  from Cons.prems obtain r rs where r: "fn x = Inr r" and rs: "array_map xs fn = Inr rs"
    and ys: "ys = r # rs"
    by (auto simp add: and_then_def split: sum.splits)
  from Cons.IH[OF rs] have "length rs = length xs" "\<forall>i < length xs. fn (xs ! i) = Inr (rs ! i)"
    by simp_all
  with r ys show ?case by (auto simp add: nth_Cons split: nat.splits)
qed

lemma defineEnumValues_Inr:
  assumes "defineEnumValues typeName (PlainObj values) = Inr vs"
  shows "length vs = length values"
    and "\<And>i. i < length values \<Longrightarrow> ev_name (vs ! i) = fst (values ! i)"
    and "\<And>i c. i < length values \<Longrightarrow> snd (values ! i) = PlainObj c \<Longrightarrow>
           ev_value (vs ! i) =
             (case evc_value c of None \<Rightarrow> JStr (fst (values ! i))
              | Some v \<Rightarrow> if v = JUndefined then JStr (fst (values ! i)) else v)"
proof -
  let ?fn = "\<lambda>(valueName, valueConfig).
            case valueConfig of
              NotPlainObj v \<Rightarrow> Inl (EnumValueMustBeObject typeName valueName v)
            | PlainObj c \<Rightarrow>
                Inr \<lparr> ev_name = valueName,
                      ev_description = evc_description c,
                      ev_value =
                        (if read (evc_value c) \<noteq> JUndefined then read (evc_value c)
                         else JStr valueName),
                      ev_deprecationReason = evc_deprecationReason c,
                      ev_extensions = extensions_of (evc_extensions c),
                      ev_astNode = evc_astNode c \<rparr>"
  from assms have am: "array_map values ?fn = Inr vs"
    by (simp add: defineEnumValues_def Object_entries_def)
  from array_map_Inr[OF am] have len: "length vs = length values"
    and each: "\<forall>i < length values. ?fn (values ! i) = Inr (vs ! i)" by simp_all
  show "length vs = length values" by (rule len)
  show "ev_name (vs ! i) = fst (values ! i)" if "i < length values" for i
  proof -
    from each that have e: "?fn (values ! i) = Inr (vs ! i)" by simp
    obtain n vc where p: "values ! i = (n, vc)" by (cases "values ! i")
    from e[symmetric] p show ?thesis by (cases vc) auto
  qed
  show "ev_value (vs ! i) =
             (case evc_value c of None \<Rightarrow> JStr (fst (values ! i))
              | Some v \<Rightarrow> if v = JUndefined then JStr (fst (values ! i)) else v)"
    if "i < length values" "snd (values ! i) = PlainObj c" for i c
  proof -
    from each that have e: "?fn (values ! i) = Inr (vs ! i)" by simp
    obtain n vc where p: "values ! i = (n, vc)" by (cases "values ! i")
    from e[symmetric] p that(2) show ?thesis by (auto simp add: read_def split: option.splits)
  qed
qed

lemma defineEnumValues_names:
  assumes "defineEnumValues typeName (PlainObj values) = Inr vs"
  shows "map ev_name vs = map fst values"
  using defineEnumValues_Inr(1,2)[OF assms] by (auto intro: nth_equalityI)

lemma new_GraphQLEnumType_Inr:
  assumes "new_GraphQLEnumType config = Inr e"
  shows "defineEnumValues (etc_name config) (etc_values config) = Inr (getValues e)"
    and "en_valueLookup e = new_Map (map (\<lambda>enumValue. (ev_value enumValue, enumValue)) (getValues e))"
    and "en_nameLookup e = keyMap (getValues e) ev_name"
    and "en_name e = etc_name config"
  using assms
  by (auto simp add: new_GraphQLEnumType_def and_then_def devAssert_def getValues_def
           split: sum.splits if_splits)

lemma serialize_lookup:
  assumes "new_GraphQLEnumType config = Inr e"
  shows "serialize e v =
     (case map_of (rev (map (\<lambda>enumValue. (ev_value enumValue, enumValue)) (getValues e))) v of
        None \<Rightarrow> Inl (EnumCannotRepresentValue (en_name e) v)
      | Some enumValue \<Rightarrow> Inr (ev_name enumValue))"
  by (simp add: serialize_def new_GraphQLEnumType_Inr(2)[OF assms] Map_get_new_Map)

lemma serialize_Inr_iff:
  assumes "new_GraphQLEnumType config = Inr e"
  shows "serialize e v = Inr n \<longleftrightarrow>
     (\<exists>j < length (getValues e). ev_name (getValues e ! j) = n \<and> ev_value (getValues e ! j) = v \<and>
        (\<forall>k. j < k \<and> k < length (getValues e) \<longrightarrow> ev_value (getValues e ! k) \<noteq> v))"
proof -
  let ?vs = "getValues e"
  let ?m = "map_of (rev (map (\<lambda>enumValue. (ev_value enumValue, enumValue)) ?vs)) v"
  have "serialize e v = Inr n \<longleftrightarrow> (\<exists>y. ?m = Some y \<and> ev_name y = n)"
    by (simp add: serialize_lookup[OF assms] split: option.splits)
  also have "\<dots> \<longleftrightarrow> (\<exists>y. (\<exists>j < length ?vs. ?vs ! j = y \<and> ev_value y = v \<and>
        (\<forall>k. j < k \<and> k < length ?vs \<longrightarrow> ev_value (?vs ! k) \<noteq> v)) \<and> ev_name y = n)"
    by (simp only: map_of_rev_keyed_Some)
  also have "\<dots> \<longleftrightarrow> (\<exists>j < length ?vs. ev_name (?vs ! j) = n \<and> ev_value (?vs ! j) = v \<and>
        (\<forall>k. j < k \<and> k < length ?vs \<longrightarrow> ev_value (?vs ! k) \<noteq> v))"
    by blast
  finally show ?thesis .
qed

lemma enum_names_distinct:
  assumes "new_GraphQLEnumType config = Inr e" "etc_values config = PlainObj values"
    "distinct (map fst values)"
  shows "distinct (map ev_name (getValues e))"
  using defineEnumValues_names[of "etc_name config" "values" "getValues e"]
    new_GraphQLEnumType_Inr(1)[OF assms(1)] assms(2,3) by simp

lemma getValue_registered:
  assumes "new_GraphQLEnumType config = Inr e" "distinct (map ev_name (getValues e))"
    "j < length (getValues e)"
  shows "getValue e (ev_name (getValues e ! j)) = Some (getValues e ! j)"
proof -
  let ?vs = "getValues e"
  have "\<forall>i. j < i \<and> i < length ?vs \<longrightarrow> ev_name (?vs ! i) \<noteq> ev_name (?vs ! j)"
  proof (intro allI impI)
    fix i assume i: "j < i \<and> i < length ?vs"
    with assms(2,3) have "map ev_name ?vs ! i \<noteq> map ev_name ?vs ! j"
      by (simp add: nth_eq_iff_index_eq del: nth_map)
    with i assms(3) show "ev_name (?vs ! i) \<noteq> ev_name (?vs ! j)" by simp
  qed
  with assms(3) have "map_of (rev (map (\<lambda>x. (ev_name x, x)) ?vs)) (ev_name (?vs ! j)) = Some (?vs ! j)"
    by (subst map_of_rev_keyed_Some) blast
  then show ?thesis
    by (simp add: getValue_def new_GraphQLEnumType_Inr(3)[OF assms(1)] get_property_keyMap)
qed

lemma parseValue_registered:
  assumes "new_GraphQLEnumType config = Inr e" "distinct (map ev_name (getValues e))"
    "j < length (getValues e)"
  shows "parseValue e (JStr (ev_name (getValues e ! j))) = Inr (ev_value (getValues e ! j))"
  by (simp add: parseValue_def getValue_registered[OF assms])

lemma serialize_registered:
  assumes "new_GraphQLEnumType config = Inr e" "j < length (getValues e)"
  shows "\<exists>l < length (getValues e).
           ev_value (getValues e ! l) = ev_value (getValues e ! j) \<and>
           serialize e (ev_value (getValues e ! j)) = Inr (ev_name (getValues e ! l))"
proof -
  let ?vs = "getValues e"
  let ?v = "ev_value (?vs ! j)"
  let ?kv = "rev (map (\<lambda>enumValue. (ev_value enumValue, enumValue)) ?vs)"
  from assms(2) have "?v \<in> fst ` set ?kv" by (auto simp add: image_iff intro: nth_mem)
  then obtain y where y: "map_of ?kv ?v = Some y"
    by (cases "map_of ?kv ?v") (simp_all add: map_of_eq_None_iff)
  then obtain l where l: "l < length ?vs" "?vs ! l = y" "ev_value y = ?v"
    by (auto simp add: map_of_rev_keyed_Some)
  from y have "serialize e ?v = Inr (ev_name y)"
    by (simp add: serialize_lookup[OF assms(1)])
  with l show ?thesis by blast
qed

lemmas enum_eval = new_GraphQLEnumType_def defineEnumValues_def Object_entries_def and_then_def
  devAssert_def read_def extensions_of_def toObjMap_def new_Map_def keyMap_def getValues_def
  getValue_def get_property_def serialize_def parseValue_def Map_get_def
  value_config_def enum_config_def

text \<open>
  Claim C1, as stated, fails. In the enum
  \<^verbatim>\<open>{ A: { value: 1 }, B: { value: 1 } }\<close>
  the record \<open>A\<close> is registered first and \<open>B\<close> second with the same
  internal value, and \<^verbatim>\<open>serialize(1)\<close> is \<open>B\<close>:
  \<^verbatim>\<open>new Map\<close> sets the entries in order, and the second
  \<^verbatim>\<open>set\<close> for a key replaces the value of the first.
\<close>

theorem serialize_first_registration_loses:
  "and_then (new_GraphQLEnumType collision_enum)
     (\<lambda>e. Inr (map ev_name (getValues e), map ev_value (getValues e), serialize e (JNum 1)))
   = Inr ([''A'', ''B''], [JNum 1, JNum 1], Inr ''B'')"
  by (simp add: collision_enum_def enum_eval)

text \<open>
  Claim C1, amended. In an enum built from a value map, let the records at the places
  \<open>i < j\<close> share an internal value, the one at \<open>j\<close> being the last
  registered with that value. The two records have different names,
  \<^verbatim>\<open>serialize\<close> of the shared value gives the name of the record at
  \<open>j\<close>, the last registered, and no value at all is serialized to the name of
  the record at \<open>i\<close>: the earlier record is out of the reach of
  \<^verbatim>\<open>serialize\<close>.
\<close>

theorem serialize_last_registration_wins:
  assumes "new_GraphQLEnumType config = Inr e"
    and "etc_values config = PlainObj vs" and "distinct (map fst vs)"
    and "i < j" and "j < length (getValues e)"
    and "ev_value (getValues e ! i) = ev_value (getValues e ! j)"
    and "\<forall>k. j < k \<and> k < length (getValues e) \<longrightarrow>
           ev_value (getValues e ! k) \<noteq> ev_value (getValues e ! j)"
  shows "ev_name (getValues e ! i) \<noteq> ev_name (getValues e ! j)
       \<and> serialize e (ev_value (getValues e ! j)) = Inr (ev_name (getValues e ! j))
       \<and> (\<forall>v. serialize e v \<noteq> Inr (ev_name (getValues e ! i)))"
proof -
  let ?vs = "getValues e"
  have d: "distinct (map ev_name ?vs)"
    by (rule enum_names_distinct[OF assms(1,2,3)])
  have ne: "ev_name (?vs ! i) \<noteq> ev_name (?vs ! j)"
  proof -
    from d assms(4,5) have "map ev_name ?vs ! i \<noteq> map ev_name ?vs ! j"
      by (simp add: nth_eq_iff_index_eq del: nth_map)
    with assms(4,5) show ?thesis by simp
  qed
  have s: "serialize e (ev_value (?vs ! j)) = Inr (ev_name (?vs ! j))"
    using assms(5,7) by (subst serialize_Inr_iff[OF assms(1)]) blast
  have u: "serialize e v \<noteq> Inr (ev_name (?vs ! i))" for v
  proof
    assume "serialize e v = Inr (ev_name (?vs ! i))"
    then obtain l where l: "l < length ?vs" "ev_name (?vs ! l) = ev_name (?vs ! i)"
      "ev_value (?vs ! l) = v" "\<forall>k. l < k \<and> k < length ?vs \<longrightarrow> ev_value (?vs ! k) \<noteq> v"
      using serialize_Inr_iff[OF assms(1)] by blast
    from l(1,2) assms(4,5) have "map ev_name ?vs ! l = map ev_name ?vs ! i" by simp
    with d l(1) assms(4,5) have "l = i" by (simp add: nth_eq_iff_index_eq del: nth_map)
    with l(3,4) assms(4,5,6) show False by auto
  qed
  from ne s u show ?thesis by blast
qed

theorem serialize_last_registration_wins_witness:
  "\<exists>e. new_GraphQLEnumType collision_enum = Inr e
       \<and> map ev_name (getValues e) = [''A'', ''B'']
       \<and> ev_value (getValues e ! 0) = ev_value (getValues e ! 1)
       \<and> serialize e (JNum 1) = Inr ''B''
       \<and> (\<forall>v. serialize e v \<noteq> Inr ''A'')"
proof -
  obtain e where e: "new_GraphQLEnumType collision_enum = Inr e"
    by (simp add: collision_enum_def enum_eval)
  then have vs: "map ev_name (getValues e) = [''A'', ''B'']"
      "map ev_value (getValues e) = [JNum 1, JNum 1]" "length (getValues e) = 2"
    by (auto simp add: collision_enum_def enum_eval)
  have c: "etc_values collision_enum =
      PlainObj [(''A'', PlainObj (value_config (Some (JNum 1)))),
        (''B'', PlainObj (value_config (Some (JNum 1))))]"
    by (simp add: collision_enum_def enum_config_def)
  have n: "ev_name (getValues e ! 0) = ''A''" "ev_name (getValues e ! Suc 0) = ''B''"
     "ev_value (getValues e ! 0) = JNum 1" "ev_value (getValues e ! Suc 0) = JNum 1"
    using vs by (auto simp add: map_eq_Cons_conv)
  have "ev_name (getValues e ! 0) \<noteq> ev_name (getValues e ! Suc 0)
       \<and> serialize e (ev_value (getValues e ! Suc 0)) = Inr (ev_name (getValues e ! Suc 0))
       \<and> (\<forall>v. serialize e v \<noteq> Inr (ev_name (getValues e ! 0)))"
    by (rule serialize_last_registration_wins[OF e c, of 0 "Suc 0"]) (auto simp add: vs n)
  with e vs n show ?thesis by auto
qed

text \<open>
  Claim C2, as stated, fails in its second half. In the enum
  \<^verbatim>\<open>{ A: { value: 1 }, B: { value: 1 } }\<close>,
  \<^verbatim>\<open>serialize(parseValue('A'))\<close> is \<open>B\<close>.
\<close>

theorem enum_round_trip_collision:
  "and_then (new_GraphQLEnumType collision_enum)
     (\<lambda>e. Inr (map ev_name (getValues e),
               and_then (parseValue e (JStr ''A'')) (serialize e)))
   = Inr ([''A'', ''B''], Inr ''B'')"
  by (simp add: collision_enum_def enum_eval)

text \<open>
  Claim C2, amended. For a record registered in an enum, with name \<open>n\<close> and
  internal value \<open>v\<close>: \<^verbatim>\<open>parseValue(serialize(v))\<close> is
  \<open>v\<close>, and \<^verbatim>\<open>parseValue(n)\<close> is \<open>v\<close>;
  \<^verbatim>\<open>serialize(parseValue(n))\<close> is \<open>n\<close> when no record
  registered later has the internal value \<open>v\<close>, and so for every record of an
  enum whose internal values are distinct.
\<close>

theorem enum_round_trip:
  assumes "new_GraphQLEnumType config = Inr e"
    and "etc_values config = PlainObj vs" and "distinct (map fst vs)"
    and "j < length (getValues e)"
  shows "and_then (serialize e (ev_value (getValues e ! j))) (\<lambda>n. parseValue e (JStr n))
           = Inr (ev_value (getValues e ! j))
       \<and> parseValue e (JStr (ev_name (getValues e ! j))) = Inr (ev_value (getValues e ! j))
       \<and> ((\<forall>k. j < k \<and> k < length (getValues e) \<longrightarrow>
               ev_value (getValues e ! k) \<noteq> ev_value (getValues e ! j)) \<longrightarrow>
            and_then (parseValue e (JStr (ev_name (getValues e ! j)))) (serialize e)
              = Inr (ev_name (getValues e ! j)))
       \<and> (distinct (map ev_value (getValues e)) \<longrightarrow>
            and_then (parseValue e (JStr (ev_name (getValues e ! j)))) (serialize e)
              = Inr (ev_name (getValues e ! j)))"
proof -
  let ?vs = "getValues e"
  have d: "distinct (map ev_name ?vs)"
    by (rule enum_names_distinct[OF assms(1,2,3)])
  have p: "parseValue e (JStr (ev_name (?vs ! j))) = Inr (ev_value (?vs ! j))"
    by (rule parseValue_registered[OF assms(1) d assms(4)])
  have a: "and_then (serialize e (ev_value (?vs ! j))) (\<lambda>n. parseValue e (JStr n))
           = Inr (ev_value (?vs ! j))"
  proof -
    from serialize_registered[OF assms(1,4)] obtain l where l: "l < length ?vs"
      "ev_value (?vs ! l) = ev_value (?vs ! j)"
      "serialize e (ev_value (?vs ! j)) = Inr (ev_name (?vs ! l))" by blast
    from parseValue_registered[OF assms(1) d l(1)] l(2,3) show ?thesis
      by (simp add: and_then_def)
  qed
  have c: "and_then (parseValue e (JStr (ev_name (?vs ! j)))) (serialize e) = Inr (ev_name (?vs ! j))"
    if "\<forall>k. j < k \<and> k < length ?vs \<longrightarrow> ev_value (?vs ! k) \<noteq> ev_value (?vs ! j)"
  proof -
    have "serialize e (ev_value (?vs ! j)) = Inr (ev_name (?vs ! j))"
      using assms(4) that by (subst serialize_Inr_iff[OF assms(1)]) blast
    with p show ?thesis by (simp add: and_then_def)
  qed
  have c': "and_then (parseValue e (JStr (ev_name (?vs ! j)))) (serialize e) = Inr (ev_name (?vs ! j))"
    if dv: "distinct (map ev_value ?vs)"
  proof (rule c, intro allI impI)
    fix k assume k: "j < k \<and> k < length ?vs"
    with dv assms(4) have "map ev_value ?vs ! k \<noteq> map ev_value ?vs ! j"
      by (simp add: nth_eq_iff_index_eq del: nth_map)
    with k assms(4) show "ev_value (?vs ! k) \<noteq> ev_value (?vs ! j)" by simp
  qed
  from a p c c' show ?thesis by blast
qed

theorem enum_round_trip_witness:
  "\<exists>e. new_GraphQLEnumType rgb_enum = Inr e
       \<and> map ev_name (getValues e) = [''RED'', ''GREEN'', ''BLUE'']
       \<and> map ev_value (getValues e) = [JNum 0, JNum 1, JNum 2]
       \<and> and_then (serialize e (JNum 1)) (\<lambda>n. parseValue e (JStr n)) = Inr (JNum 1)
       \<and> and_then (parseValue e (JStr ''GREEN'')) (serialize e) = Inr ''GREEN''"
proof -
  obtain e where e: "new_GraphQLEnumType rgb_enum = Inr e"
    by (simp add: rgb_enum_def enum_eval)
  then have vs: "map ev_name (getValues e) = [''RED'', ''GREEN'', ''BLUE'']"
      "map ev_value (getValues e) = [JNum 0, JNum 1, JNum 2]" "length (getValues e) = 3"
    by (auto simp add: rgb_enum_def enum_eval)
  have c: "etc_values rgb_enum =
      PlainObj [(''RED'', PlainObj (value_config (Some (JNum 0)))),
        (''GREEN'', PlainObj (value_config (Some (JNum 1)))),
        (''BLUE'', PlainObj (value_config (Some (JNum 2))))]"
    by (simp add: rgb_enum_def enum_config_def)
  have n: "ev_name (getValues e ! Suc 0) = ''GREEN''" "ev_value (getValues e ! Suc 0) = JNum 1"
    using vs by (auto simp add: map_eq_Cons_conv)
  have dv: "distinct (map ev_value (getValues e))" by (simp add: vs)
  have j: "Suc 0 < length (getValues e)" by (simp add: vs)
  have dk: "distinct (map fst [(''RED'', PlainObj (value_config (Some (JNum 0)))),
        (''GREEN'', PlainObj (value_config (Some (JNum 1)))),
        (''BLUE'', PlainObj (value_config (Some (JNum 2))))])" by simp
  from enum_round_trip[OF e c dk j] dv n e vs show ?thesis by auto
qed

text \<open>
  Claim C10. The value record built from the entry \<open>valueName\<close> of a value map
  has that name, and its internal value is the \<^verbatim>\<open>value\<close> property of
  the entry when the entry has the property with a value other than
  \<^verbatim>\<open>undefined\<close> (\<^verbatim>\<open>null\<close> is kept), and is
  the name itself both when the entry has no \<^verbatim>\<open>value\<close> property and
  when it has it with the value \<^verbatim>\<open>undefined\<close>.
\<close>

theorem enum_internal_value:
  assumes "new_GraphQLEnumType config = Inr e"
    and "etc_values config = PlainObj vs"
    and "i < length vs" and "vs ! i = (valueName, PlainObj c)"
  shows "ev_name (getValues e ! i) = valueName
       \<and> (\<forall>v. evc_value c = Some v \<and> v \<noteq> JUndefined \<longrightarrow> ev_value (getValues e ! i) = v)
       \<and> (evc_value c = Some JNull \<longrightarrow> ev_value (getValues e ! i) = JNull)
       \<and> (evc_value c = None \<longrightarrow> ev_value (getValues e ! i) = JStr valueName)
       \<and> (evc_value c = Some JUndefined \<longrightarrow> ev_value (getValues e ! i) = JStr valueName)"
proof -
  from new_GraphQLEnumType_Inr(1)[OF assms(1)] assms(2)
  have dv: "defineEnumValues (etc_name config) (PlainObj vs) = Inr (getValues e)" by simp
  from defineEnumValues_Inr(2)[OF dv assms(3)] assms(4)
  have n: "ev_name (getValues e ! i) = valueName" by simp
  from assms(4) have "snd (vs ! i) = PlainObj c" by simp
  from defineEnumValues_Inr(3)[OF dv assms(3) this] assms(4)
  have v: "ev_value (getValues e ! i) =
             (case evc_value c of None \<Rightarrow> JStr valueName
              | Some v \<Rightarrow> if v = JUndefined then JStr valueName else v)"
    by (simp split: option.splits)
  from n v show ?thesis by simp
qed

theorem enum_internal_value_witness:
  "\<exists>e. new_GraphQLEnumType defaults_enum = Inr e
       \<and> map ev_name (getValues e) = [''GIVEN'', ''NULL'', ''OMITTED'', ''UNDEFINED'']
       \<and> ev_value (getValues e ! 0) = JNum 7
       \<and> ev_value (getValues e ! 1) = JNull
       \<and> ev_value (getValues e ! 2) = JStr ''OMITTED''
       \<and> ev_value (getValues e ! 3) = JStr ''UNDEFINED''"
proof -
  obtain e where e: "new_GraphQLEnumType defaults_enum = Inr e"
    by (simp add: defaults_enum_def enum_eval)
  have c: "etc_values defaults_enum =
      PlainObj [(''GIVEN'', PlainObj (value_config (Some (JNum 7)))),
        (''NULL'', PlainObj (value_config (Some JNull))),
        (''OMITTED'', PlainObj (value_config None)),
        (''UNDEFINED'', PlainObj (value_config (Some JUndefined)))]"
    by (simp add: defaults_enum_def enum_config_def)
  have vs: "map ev_name (getValues e) = [''GIVEN'', ''NULL'', ''OMITTED'', ''UNDEFINED'']"
    using e by (auto simp add: defaults_enum_def enum_eval)
  have v0: "ev_value (getValues e ! 0) = JNum 7"
    using enum_internal_value[OF e c, of 0 "''GIVEN''" "value_config (Some (JNum 7))"]
    by (simp add: value_config_def)
  have v1: "ev_value (getValues e ! 1) = JNull"
    using enum_internal_value[OF e c, of 1 "''NULL''" "value_config (Some JNull)"]
    by (simp add: value_config_def)
  have v2: "ev_value (getValues e ! 2) = JStr ''OMITTED''"
    using enum_internal_value[OF e c, of 2 "''OMITTED''" "value_config None"]
    by (simp add: value_config_def)
  have v3: "ev_value (getValues e ! 3) = JStr ''UNDEFINED''"
    using enum_internal_value[OF e c, of 3 "''UNDEFINED''" "value_config (Some JUndefined)"]
    by (simp add: value_config_def)
  from e vs v0 v1 v2 v3 show ?thesis by (intro exI[of _ e]) simp
qed

section \<open>Properties of arguments and input fields\<close>

lemma isNonNullType_iff: "isNonNullType ty \<longleftrightarrow> (\<exists>t. ty = Ty (NonNullT t))"
proof (cases ty)
  case (Val v)
  then show ?thesis by (simp add: isNonNullType_def)
next
  case (Ty t)
  then show ?thesis by (cases t) (simp_all add: isNonNullType_def)
qed

lemma defineArguments_nth:
  assumes "i < length config" "config ! i = (argName, c)"
  shows "arg_name (defineArguments config ! i) = argName"
    and "arg_type (defineArguments config ! i) = ac_type c"
    and "arg_defaultValue (defineArguments config ! i) = read (ac_defaultValue c)"
  using assms by (simp_all add: defineArguments_def Object_entries_def)

lemma read_undefined_iff: "read p = JUndefined \<longleftrightarrow> p = None \<or> p = Some JUndefined"
  by (cases p) (simp_all add: read_def)

text \<open>
  Claim C5. An argument record is required exactly when its type is a non-null wrapper at
  the outer layer and it has no default value, and likewise an input field record. A record
  always has the property \<^verbatim>\<open>defaultValue\<close>, and
  \<^verbatim>\<open>undefined\<close> there is how it has none:
  \<^verbatim>\<open>defineArguments\<close> writes \<^verbatim>\<open>undefined\<close>
  both for a configuration without the property and for one that has it with the value
  \<^verbatim>\<open>undefined\<close>. Any default value, 0 and
  \<^verbatim>\<open>null\<close> among them, makes the record not required, and a record
  with a nullable type is never required.
\<close>

theorem required_iff_non_null_without_default:
  "(isRequiredArgument arg \<longleftrightarrow>
      (\<exists>t. arg_type arg = Ty (NonNullT t)) \<and> arg_defaultValue arg = JUndefined)
   \<and> (isRequiredInputField field \<longleftrightarrow>
      (\<exists>t. if_type field = Ty (NonNullT t)) \<and> if_defaultValue field = JUndefined)
   \<and> (arg_defaultValue arg \<noteq> JUndefined \<longrightarrow> \<not> isRequiredArgument arg)
   \<and> (if_defaultValue field \<noteq> JUndefined \<longrightarrow> \<not> isRequiredInputField field)
   \<and> \<not> isRequiredArgument (arg\<lparr>arg_defaultValue := JNum 0\<rparr>)
   \<and> \<not> isRequiredArgument (arg\<lparr>arg_defaultValue := JNull\<rparr>)
   \<and> \<not> isRequiredInputField (field\<lparr>if_defaultValue := JNum 0\<rparr>)
   \<and> \<not> isRequiredInputField (field\<lparr>if_defaultValue := JNull\<rparr>)
   \<and> (isNullableType (arg_type arg) \<longrightarrow> \<not> isRequiredArgument arg)
   \<and> (isNullableType (if_type field) \<longrightarrow> \<not> isRequiredInputField field)
   \<and> (i < length config \<and> config ! i = (argName, c) \<longrightarrow>
        (isRequiredArgument (defineArguments config ! i) \<longleftrightarrow>
           (\<exists>t. ac_type c = Ty (NonNullT t)) \<and>
           (ac_defaultValue c = None \<or> ac_defaultValue c = Some JUndefined)))"
proof -
  have a: "isRequiredArgument arg \<longleftrightarrow>
      (\<exists>t. arg_type arg = Ty (NonNullT t)) \<and> arg_defaultValue arg = JUndefined" for arg
    by (simp add: isRequiredArgument_def isNonNullType_iff)
  have b: "isRequiredInputField field \<longleftrightarrow>
      (\<exists>t. if_type field = Ty (NonNullT t)) \<and> if_defaultValue field = JUndefined" for field
    by (simp add: isRequiredInputField_def isNonNullType_iff)
  have n1: "isNullableType (arg_type arg) \<longrightarrow> \<not> isRequiredArgument arg"
    by (simp add: isRequiredArgument_def isNullableType_def)
  have n2: "isNullableType (if_type field) \<longrightarrow> \<not> isRequiredInputField field"
    by (simp add: isRequiredInputField_def isNullableType_def)
  have d: "i < length config \<and> config ! i = (argName, c) \<longrightarrow>
        (isRequiredArgument (defineArguments config ! i) \<longleftrightarrow>
           (\<exists>t. ac_type c = Ty (NonNullT t)) \<and>
           (ac_defaultValue c = None \<or> ac_defaultValue c = Some JUndefined))"
    by (simp add: a defineArguments_nth read_undefined_iff)
  show ?thesis
    using a[of arg] b[of field] n1 n2 d by (simp add: a b)
qed

theorem required_iff_non_null_without_default_witness:
  "isRequiredArgument (argument (Ty (NonNullT (ScalarT 0))) JUndefined)
   \<and> \<not> isRequiredArgument (argument (Ty (NonNullT (ScalarT 0))) (JNum 0))
   \<and> isNullableType (Ty (ScalarT 0))
   \<and> \<not> isRequiredArgument (argument (Ty (ScalarT 0)) JUndefined)
   \<and> isRequiredInputField (input_field (Ty (NonNullT (ScalarT 0))) JUndefined)
   \<and> \<not> isRequiredInputField (input_field (Ty (NonNullT (ScalarT 0))) JNull)
   \<and> \<not> isRequiredInputField (input_field (Ty (ScalarT 0)) JUndefined)
   \<and> isRequiredArgument
       (defineArguments [(''a'', argument_config (Ty (NonNullT (ScalarT 0))) None)] ! 0)
   \<and> \<not> isRequiredArgument
       (defineArguments [(''a'', argument_config (Ty (NonNullT (ScalarT 0))) (Some (JNum 0)))] ! 0)"
  using
    required_iff_non_null_without_default [of "argument (Ty (NonNullT (ScalarT 0))) JUndefined"
           "input_field (Ty (NonNullT (ScalarT 0))) JUndefined" 0
           "[(''a'', argument_config (Ty (NonNullT (ScalarT 0))) None)]" "''a''"
           "argument_config (Ty (NonNullT (ScalarT 0))) None"]
    required_iff_non_null_without_default [of "argument (Ty (NonNullT (ScalarT 0))) (JNum 0)"
           "input_field (Ty (NonNullT (ScalarT 0))) JNull" 0
           "[(''a'', argument_config (Ty (NonNullT (ScalarT 0))) (Some (JNum 0)))]" "''a''"
           "argument_config (Ty (NonNullT (ScalarT 0))) (Some (JNum 0))"]
    required_iff_non_null_without_default [of "argument (Ty (ScalarT 0)) JUndefined"
           "input_field (Ty (ScalarT 0)) JUndefined" 0 "[]" "''a''"
           "argument_config (Ty (ScalarT 0)) None"]
  by (simp add: argument_def input_field_def argument_config_def isNullableType_def isType_def
        isScalarType_def isNonNullType_def)

lemma mapValue_fails:
  assumes "\<forall>(n, c) \<in> set pre. \<exists>r. fn c n = Inr r" "fn v k = Inl e"
  shows "mapValue (pre @ (k, v) # post) fn = Inl e"
  using assms(1)
proof (induction pre)
  case Nil
  then show ?case by (simp add: and_then_def assms(2))
next
  case (Cons p pre)
  obtain n c where p: "p = (n, c)" by (cases p)
  from Cons.prems p obtain r where r: "fn c n = Inr r" by auto
  from Cons.prems have "\<forall>(n, c) \<in> set pre. \<exists>r. fn c n = Inr r" by simp
  from Cons.IH[OF this] r p show ?case by (simp add: and_then_def)
qed

lemma mapValue_Inr:
  "mapValue fm fn = Inr r \<Longrightarrow>
     length r = length fm \<and>
     (\<forall>i < length fm. fst (r ! i) = fst (fm ! i) \<and>
        fn (snd (fm ! i)) (fst (fm ! i)) = Inr (snd (r ! i)))"
proof (induction fm arbitrary: r)
  case Nil
  then show ?case by simp
next
  case (Cons p fm)
  obtain k v where p: "p = (k, v)" by (cases p)
  from Cons.prems p obtain x xs where x: "fn v k = Inr x" and xs: "mapValue fm fn = Inr xs"
    and r: "r = (k, x) # xs"
    by (auto simp add: and_then_def split: sum.splits)
  from Cons.IH[OF xs] have "length xs = length fm"
    "\<forall>i < length fm. fst (xs ! i) = fst (fm ! i) \<and> fn (snd (fm ! i)) (fst (fm ! i)) = Inr (snd (xs ! i))"
    by simp_all
  with x r p show ?case by (auto simp add: nth_Cons split: nat.splits)
qed

lemma new_GraphQLInputObjectType_unresolved:
  assumes "new_GraphQLInputObjectType config w0 = (Inr this, w1)"
  shows "io_config this = config \<and> w_fields w1 (io_self this) = None"
  using assms
  by (auto simp add: new_GraphQLInputObjectType_def new_object_def and_then_def devAssert_def
        split: if_splits)

text \<open>
  Claim C6. Let the field map of an input object type, given as it is or by a thunk, hold
  at \<open>fieldName\<close> a configuration with a property \<^verbatim>\<open>resolve\<close>, of any value \<open>x\<close>, and
  let no field before it be refused. Then normalizing the field map fails with the error
  that names the type and the field, whatever the other properties of the configuration
  and whatever the fields after it: the test comes first. The constructor binds the
  normalization to the configuration and leaves the type unresolved, and \<^verbatim>\<open>getFields\<close>
  of an unresolved type runs it, so that this is where a type built from the
  configuration fails. The call stores nothing: the state after it is the one in which
  the thunk was resolved.
\<close>

theorem input_field_with_resolve_rejected:
  assumes "resolveObjMapThunk (ioc_fields config) w
             = (Inr (PlainObj (pre @ (fieldName, PlainObj c) # post)), w')"
    and "ifc_resolve c = Some x"
    and "\<forall>(n, fc) \<in> set pre. resolve_in fc = Inr False"
  shows "defineInputFieldMap config w
           = (Inl (InputFieldHasResolve (ioc_name config) fieldName), w')
       \<and> (\<forall>this w0 w1. new_GraphQLInputObjectType config w0 = (Inr this, w1) \<longrightarrow>
            io_config this = config \<and> w_fields w1 (io_self this) = None)
       \<and> (\<forall>this. io_config this = config \<and> w_fields w (io_self this) = None \<longrightarrow>
            GraphQLInputObjectType_getFields this w
              = (Inl (InputFieldHasResolve (ioc_name config) fieldName), w'))"
proof -
  let ?fn = "\<lambda>fieldConfig fieldName.
                  and_then (resolve_in fieldConfig) (\<lambda>has_resolve.
                  and_then
                    (devAssert (\<not> has_resolve) (InputFieldHasResolve (ioc_name config) fieldName))
                    (\<lambda>_.
                    Inr \<lparr> if_name = fieldName,
                          if_description = ifc_description (properties fieldConfig),
                          if_type = ifc_type (properties fieldConfig),
                          if_defaultValue = read (ifc_defaultValue (properties fieldConfig)),
                          if_deprecationReason = ifc_deprecationReason (properties fieldConfig),
                          if_extensions = extensions_of (ifc_extensions (properties fieldConfig)),
                          if_astNode = ifc_astNode (properties fieldConfig) \<rparr>))"
  have pre: "\<forall>(n, fc) \<in> set pre. \<exists>r. ?fn fc n = Inr r"
    using assms(3) by (auto simp add: and_then_def devAssert_def)
  have here: "?fn (PlainObj c) fieldName = Inl (InputFieldHasResolve (ioc_name config) fieldName)"
    using assms(2) by (simp add: and_then_def devAssert_def)
  have m: "mapValue (pre @ (fieldName, PlainObj c) # post) ?fn
             = Inl (InputFieldHasResolve (ioc_name config) fieldName)"
    by (rule mapValue_fails[OF pre here])
  have d: "defineInputFieldMap config w
           = (Inl (InputFieldHasResolve (ioc_name config) fieldName), w')"
    by (simp add: defineInputFieldMap_def assms(1) m)
  have n: "io_config this = config \<and> w_fields w1 (io_self this) = None"
    if "new_GraphQLInputObjectType config w0 = (Inr this, w1)" for this w0 w1
    by (rule new_GraphQLInputObjectType_unresolved[OF that])
  have g: "GraphQLInputObjectType_getFields this w
              = (Inl (InputFieldHasResolve (ioc_name config) fieldName), w')"
    if "io_config this = config \<and> w_fields w (io_self this) = None" for this
    using that by (simp add: GraphQLInputObjectType_getFields_def d)
  from d n g show ?thesis by blast
qed

theorem input_field_with_resolve_rejected_witness:
  "defineInputFieldMap
     (input_object_config ''Point''
        [(''x'', PlainObj (input_field_config (Ty (ScalarT 0)) JUndefined None)),
         (''y'', PlainObj (input_field_config (Ty (ScalarT 0)) JUndefined (Some JNull))),
         (''z'', PlainObj (input_field_config (Ty (ScalarT 0)) JUndefined None))]) (start ())
     = (Inl (InputFieldHasResolve (JStr ''Point'') ''y''), start ())
   \<and> defineInputFieldMap
     (input_object_config ''Point''
        [(''x'', PlainObj (input_field_config (Ty (ScalarT 0)) JUndefined None)),
         (''y'', PlainObj (input_field_config (Ty (ScalarT 0)) JUndefined (Some (JFun 0))))])
       (start ())
     = (Inl (InputFieldHasResolve (JStr ''Point'') ''y''), start ())
   \<and> (case new_GraphQLInputObjectType
        (input_object_config ''Point''
           [(''x'', PlainObj (input_field_config (Ty (ScalarT 0)) JUndefined None)),
            (''y'', PlainObj (input_field_config (Ty (ScalarT 0)) JUndefined (Some JNull)))])
        (start ()) of
        (made, w) \<Rightarrow>
          (made,
           case GraphQLInputObjectType_getFields (projr made) w of
             (r, w') \<Rightarrow> (r, w_fields w' 0, w_next w')))
      = (Inr \<lparr> io_self = 0, io_name = JStr ''Point'', io_description = JUndefined,
               io_extensions = JUndefined, io_astNode = JUndefined, io_extensionASTNodes = [],
               io_config = input_object_config ''Point''
                 [(''x'', PlainObj (input_field_config (Ty (ScalarT 0)) JUndefined None)),
                  (''y'', PlainObj (input_field_config (Ty (ScalarT 0)) JUndefined (Some JNull)))] \<rparr>,
         Inl (InputFieldHasResolve (JStr ''Point'') ''y''), None, 1)"
  using
    input_field_with_resolve_rejected [of "input_object_config ''Point''
        [(''x'', PlainObj (input_field_config (Ty (ScalarT 0)) JUndefined None)),
         (''y'', PlainObj (input_field_config (Ty (ScalarT 0)) JUndefined (Some JNull))),
         (''z'', PlainObj (input_field_config (Ty (ScalarT 0)) JUndefined None))]" "start ()"
        "[(''x'', PlainObj (input_field_config (Ty (ScalarT 0)) JUndefined None))]" "''y''"
        "input_field_config (Ty (ScalarT 0)) JUndefined (Some JNull)"
        "[(''z'', PlainObj (input_field_config (Ty (ScalarT 0)) JUndefined None))]" "start ()" JNull]
    input_field_with_resolve_rejected [of "input_object_config ''Point''
        [(''x'', PlainObj (input_field_config (Ty (ScalarT 0)) JUndefined None)),
         (''y'', PlainObj (input_field_config (Ty (ScalarT 0)) JUndefined (Some (JFun 0))))]" "start ()"
        "[(''x'', PlainObj (input_field_config (Ty (ScalarT 0)) JUndefined None))]" "''y''"
        "input_field_config (Ty (ScalarT 0)) JUndefined (Some (JFun 0))"
        "[]" "start ()" "JFun 0"]
    input_field_with_resolve_rejected [of "input_object_config ''Point''
        [(''x'', PlainObj (input_field_config (Ty (ScalarT 0)) JUndefined None)),
         (''y'', PlainObj (input_field_config (Ty (ScalarT 0)) JUndefined (Some JNull)))]"
        "snd (new_GraphQLInputObjectType (input_object_config ''Point''
           [(''x'', PlainObj (input_field_config (Ty (ScalarT 0)) JUndefined None)),
            (''y'', PlainObj (input_field_config (Ty (ScalarT 0)) JUndefined (Some JNull)))])
           (start ()))"
        "[(''x'', PlainObj (input_field_config (Ty (ScalarT 0)) JUndefined None))]" "''y''"
        "input_field_config (Ty (ScalarT 0)) JUndefined (Some JNull)"
        "[]"
        "snd (new_GraphQLInputObjectType (input_object_config ''Point''
           [(''x'', PlainObj (input_field_config (Ty (ScalarT 0)) JUndefined None)),
            (''y'', PlainObj (input_field_config (Ty (ScalarT 0)) JUndefined (Some JNull)))])
           (start ()))" JNull]
  by (simp add: input_object_config_def input_field_config_def resolveObjMapThunk_def
        new_GraphQLInputObjectType_def new_object_def and_then_def devAssert_def start_def
        extensions_of_def GraphQLInputObjectType_getFields_def defineInputFieldMap_def)

section \<open>Properties of the round trip\<close>

text \<open>
  Claim C4 at an input object type with a deprecated field. The field of the first type has
  the deprecation reason of its configuration; \<^verbatim>\<open>toConfig\<close> leaves the property out of
  the round-trip configuration, and the field of the second type has none.
\<close>

theorem input_object_round_trip_drops_deprecationReason:
  "and_then (input_object_round_trip deprecated_input (start ()))
     (\<lambda>(fs1, fs2). Inr (map (\<lambda>(n, f). (n, if_deprecationReason f)) fs1,
                        map (\<lambda>(n, f). (n, if_deprecationReason f)) fs2))
   = Inr ([(''old'', JStr ''use new'')], [(''old'', JUndefined)])"
  by (simp add: input_object_round_trip_def deprecated_input_def input_object_config_def
        input_field_config_def new_GraphQLInputObjectType_def and_then_def devAssert_def
        GraphQLInputObjectType_toConfig_def GraphQLInputObjectType_getFields_def
        defineInputFieldMap_def resolveObjMapThunk_def read_def extensions_of_def toObjMap_def
        new_object_def new_input_field_map_def start_def)

section \<open>Properties of the lazily resolved members\<close>








































lemmas pets_eval = Pet_def Pet_world_def pets_world_def start_def new_array_def new_object_def
  union_config_def new_GraphQLUnionType_def and_then_def devAssert_def nullish_def
  extensions_of_def GraphQLUnionType_getTypes_def defineTypes_def resolveArrayThunk_def
  bump_def push_def Dog_def Cat_def

lemma reentrant_thunk_calls_its_own_type:
  "reentrant_thunk = calling_thunk (GraphQLUnionType_getTypes (Pet (Thunk reentrant_thunk)))"
  by (rule ext)
     (simp add: reentrant_thunk_def calling_thunk_def later_thunk_def pets_eval
        split: option.splits)






end
